theory Spec2Isabelle
  imports
    Main
    "HOL-Library.Char_ord"
    "HOL-Library.List_Lexorder"
    "HOL-Library.Product_Lexorder"
    "HOL-Library.Multiset"
    "HOL-Library.AList"
begin

section \<open>The plugin service of homebridge-config-ui-x\<close>

text \<open>
  A shallow embedding of \<^verbatim>\<open>PluginsService\<close> (the backend class that discovers,
  enriches and manages Homebridge plugins). Asynchronous methods become pure functions
  of the host they run on: the file system, the npm registry, the environment and the
  external libraries (path, semver, bash-color, node-pty) are fields of the record
  \<open>host\<close>, so every theorem holds for every behaviour of them. A rejected promise
  or a thrown exception is the \<open>Inl\<close> branch of a sum. Calls of the logger write
  to a sink the service never reads back, and are left out.
\<close>

subsection \<open>Data\<close>

datatype error = NotFoundException | TypeError | FsError

text \<open>What \<^verbatim>\<open>request-promise\<close> rejects with: a response with a status code,
  or a transport failure (no status code).\<close>

datatype http_error = StatusCodeError nat | RequestError

text \<open>The interface \<^verbatim>\<open>HomebridgePlugin\<close>: every field but the name is
  optional. \<open>None\<close> stands for a field that is undefined or null.\<close>

record plugin_links =
  npm :: "string option"
  homepage :: "string option"
  bugs :: "string option"

record HomebridgePlugin =
  name :: string
  description :: "string option"
  certifiedPlugin :: "bool option"
  publicPackage :: "bool option"
  installedVersion :: "string option"
  latestVersion :: "string option"
  lastUpdated :: "string option"
  updateAvailable :: "bool option"
  installPath :: "string option"
  globalInstall :: "bool option"
  settingsSchema :: "bool option"
  links :: "plugin_links option"
  author :: "string option"

text \<open>An entry of \<^verbatim>\<open>getInstalledModules\<close>:
  \<^verbatim>\<open>{ name, path, installPath }\<close>.\<close>

record installed_module =
  m_name :: string
  m_path :: string
  m_installPath :: string

text \<open>
  A JSON file as the service reads it: the fields of a parsed \<^verbatim>\<open>package.json\<close>
  (name, description, keywords, version) and of a \<^verbatim>\<open>config.schema.json\<close>
  (\<^verbatim>\<open>schema.properties\<close>, the properties in the order of the file, each with an
  optional default).
  A field the file does not have is \<open>None\<close>. The service calls
  \<^verbatim>\<open>.includes\<close> on whatever the manifest has as \<^verbatim>\<open>keywords\<close>: that value is
  an array (of which only the strings matter to the test), a string, or a truthy value
  of another kind (a number, \<^verbatim>\<open>true\<close>, an object), which has no such method. A
  falsy value (null, false, 0) counts as no keywords.
\<close>

datatype jvalue = JNum int | JStr string

datatype jkeywords = KwArray "string list" | KwString string | KwOther

record schema_property =
  prop_default :: "jvalue option"

record json_obj =
  j_name :: "string option"
  j_description :: "string option"
  j_keywords :: "jkeywords option"
  j_version :: "string option"
  j_schema_properties :: "(string \<times> schema_property) list option"

datatype fsnode = Directory "string list" | JsonFile json_obj | OtherFile

text \<open>
  The package document of the registry
  (\<^verbatim>\<open>GET https://registry.npmjs.org/<name>\<close>), with the fields the service
  reads. \<open>pkg_dist_tags\<close> is \<open>None\<close> when the document has no
  \<^verbatim>\<open>dist-tags\<close> object and \<open>Some None\<close> when that object has no
  \<^verbatim>\<open>latest\<close>; \<open>pkg_bugs_url\<close> is the value of
  \<^verbatim>\<open>(pkg.bugs) ? pkg.bugs.url : null\<close>; \<open>pkg_package_date\<close> is \<open>None\<close>
  when the document has no \<^verbatim>\<open>package\<close> object.
\<close>

record registry_doc =
  pkg_name :: string
  pkg_description :: "string option"
  pkg_keywords :: "string list option"
  pkg_dist_tags :: "string option option"
  pkg_homepage :: "string option"
  pkg_bugs_url :: "string option"
  pkg_maintainers :: "string list option"
  pkg_package_date :: "string option option"

text \<open>The fields of \<^verbatim>\<open>ConfigService\<close> the plugin service reads.\<close>

record config =
  customPluginPath :: "string option"
  cfg_name :: string
  ui_port :: int
  ui_sudo :: bool
  minimumNodeVersion :: string
  bridge_pin :: string

datatype colour = Yellow | Cyan | Green

datatype pty_event = Data string | Exit int

text \<open>
  The host. \<open>fs\<close> is the file system (\<open>None\<close>: nothing at that path);
  \<open>fs_writable\<close> says whether \<^verbatim>\<open>fs.access(p, W_OK)\<close> succeeds;
  \<open>rp_get\<close> is the registry request for a package name (the URL is built from the
  name alone); \<open>semver_lt\<close> is \<^verbatim>\<open>semver.lt\<close> on two strings, \<open>None\<close>
  when it throws on an invalid version; \<open>strip_urls\<close> is the description clean-up
  \<^verbatim>\<open>.replace(/(?:https?|ftp):\/\/[\n\S]+/g, '').trim()\<close>; \<open>pty_spawn\<close> gives
  the events the spawned terminal delivers, in order, for a file, its arguments and a
  working directory.
\<close>

record host =
  fs :: "string \<Rightarrow> fsnode option"
  fs_writable :: "string \<Rightarrow> bool"
  path_join :: "string list \<Rightarrow> string"
  path_resolve :: "string list \<Rightarrow> string"
  path_delimiter :: char
  os_platform :: string
  os_username :: string
  process_version :: string
  env_NODE_PATH :: "string option"
  env_APPDATA :: string
  require_main_paths :: "string list"
  npm_global_modules :: string
  rp_get :: "string \<Rightarrow> http_error + registry_doc"
  semver_lt :: "string \<Rightarrow> string \<Rightarrow> bool option"
  semver_satisfies :: "string \<Rightarrow> string \<Rightarrow> bool"
  strip_urls :: "string \<Rightarrow> string"
  colour_text :: "colour \<Rightarrow> string \<Rightarrow> string"
  pty_spawn :: "string option \<Rightarrow> string list \<Rightarrow> string \<Rightarrow> pty_event list"

text \<open>The mutable fields of the service object.\<close>

record service =
  paths :: "string list"
  installedPlugins :: "HomebridgePlugin list option"

subsection \<open>JavaScript and library primitives\<close>

text \<open>\<^verbatim>\<open>s.indexOf(p) === 0\<close>: the string starts with \<open>p\<close>.\<close>

definition startsWith :: "string \<Rightarrow> string \<Rightarrow> bool" where
  "startsWith p s = (take (length p) s = p)"

text \<open>Truthiness of an optional string: undefined, null and the empty string are falsy.\<close>

definition truthy :: "string option \<Rightarrow> bool" where
  "truthy v = (case v of None \<Rightarrow> False | Some s \<Rightarrow> s \<noteq> [])"

text \<open>\<^verbatim>\<open>String.prototype.includes\<close>: the first string occurs in the second.\<close>

fun str_includes :: "string \<Rightarrow> string \<Rightarrow> bool" where
  "str_includes p [] = (p = [])"
| "str_includes p (c # cs) = (startsWith p (c # cs) \<or> str_includes p cs)"

text \<open>
  \<^verbatim>\<open>pjson.keywords && pjson.keywords.includes('homebridge-plugin')\<close> (line 135)
  evaluates to true. An array, even an empty one, is truthy and
  \<^verbatim>\<open>Array.prototype.includes\<close> looks for an element; the empty string is falsy
  and on any other string \<^verbatim>\<open>String.prototype.includes\<close> looks for a substring.
  On a value of another kind the call throws (see \<open>loadCandidate\<close>).
\<close>

definition has_plugin_keyword :: "jkeywords option \<Rightarrow> bool" where
  "has_plugin_keyword ks =
     (case ks of
        None \<Rightarrow> False
      | Some (KwArray l) \<Rightarrow> ''homebridge-plugin'' \<in> set l
      | Some (KwString s) \<Rightarrow> s \<noteq> [] \<and> str_includes ''homebridge-plugin'' s
      | Some KwOther \<Rightarrow> False)"


text \<open>\<^verbatim>\<open>fs.pathExists\<close> and \<^verbatim>\<open>fs.existsSync\<close> never fail; they hold
  for files and directories alike.\<close>

definition fs_pathExists :: "host \<Rightarrow> string \<Rightarrow> bool" where
  "fs_pathExists h p = (fs h p \<noteq> None)"

definition fs_existsSync :: "host \<Rightarrow> string \<Rightarrow> bool" where
  "fs_existsSync h p = (fs h p \<noteq> None)"

definition fs_readJson :: "host \<Rightarrow> string \<Rightarrow> error + json_obj" where
  "fs_readJson h p = (case fs h p of Some (JsonFile j) \<Rightarrow> Inr j | _ \<Rightarrow> Inl FsError)"

definition fs_readdir :: "host \<Rightarrow> string \<Rightarrow> error + string list" where
  "fs_readdir h p = (case fs h p of Some (Directory ns) \<Rightarrow> Inr ns | _ \<Rightarrow> Inl FsError)"

text \<open>\<^verbatim>\<open>semver.lt(a, b)\<close> as the service calls it: an argument that is not a
  string (null, undefined) makes the \<^verbatim>\<open>SemVer\<close> constructor throw a TypeError.\<close>

definition js_semver_lt :: "host \<Rightarrow> string option \<Rightarrow> string option \<Rightarrow> bool option" where
  "js_semver_lt h a b =
     (case a of None \<Rightarrow> None
      | Some x \<Rightarrow> (case b of None \<Rightarrow> None | Some y \<Rightarrow> semver_lt h x y))"

text \<open>\<^verbatim>\<open>_.uniq\<close>: the values in order of first occurrence.\<close>

definition uniq :: "'a list \<Rightarrow> 'a list" where
  "uniq xs = foldl (\<lambda>res v. if v \<in> set res then res else res @ [v]) [] xs"

text \<open>\<^verbatim>\<open>Array.prototype.findIndex\<close>: the first index where the predicate holds,
  \<open>-1\<close> when there is none.\<close>

fun findIndex_from :: "int \<Rightarrow> ('a \<Rightarrow> bool) \<Rightarrow> 'a list \<Rightarrow> int" where
  "findIndex_from i P [] = -1"
| "findIndex_from i P (x # xs) = (if P x then i else findIndex_from (i + 1) P xs)"

definition findIndex :: "('a \<Rightarrow> bool) \<Rightarrow> 'a list \<Rightarrow> int" where
  "findIndex P xs = findIndex_from 0 P xs"

text \<open>
  \<^verbatim>\<open>_.orderBy(plugins, ['updateAvailable', 'name'], ['desc', 'asc'])\<close>. Lodash
  compares the criteria in turn and breaks ties by the original index, so the result is
  the stable sort by the pair of criteria. In ascending order lodash puts false before
  true and undefined last; descending reverses that. Names are compared as JavaScript
  compares strings, character code by character code.
\<close>

definition updateAvailable_rank :: "bool option \<Rightarrow> nat" where
  "updateAvailable_rank v = (case v of None \<Rightarrow> 0 | Some True \<Rightarrow> 1 | Some False \<Rightarrow> 2)"

definition orderBy_key :: "HomebridgePlugin \<Rightarrow> nat \<times> string" where
  "orderBy_key p = (updateAvailable_rank (updateAvailable p), name p)"

definition orderBy :: "HomebridgePlugin list \<Rightarrow> HomebridgePlugin list" where
  "orderBy ps = sort_key orderBy_key ps"

subsection \<open>Registry client\<close>

text \<open>The catch block of \<^verbatim>\<open>getPluginFromNpm\<close> (lines 617 to 625).\<close>

definition npm_catch :: "HomebridgePlugin \<Rightarrow> HomebridgePlugin" where
  "npm_catch plugin =
     plugin\<lparr>publicPackage := Some False, latestVersion := None,
            updateAvailable := Some False,
            links := Some \<lparr>npm = None, homepage = None, bugs = None\<rparr>\<rparr>"

text \<open>
  \<^verbatim>\<open>getPluginFromNpm\<close>. Inside the try block the request can reject, reading
  \<^verbatim>\<open>pkg['dist-tags'].latest\<close> throws when there is no \<^verbatim>\<open>dist-tags\<close>,
  \<^verbatim>\<open>semver.lt\<close> throws on a version it cannot parse, and
  \<^verbatim>\<open>pkg.maintainers.length\<close> throws when there are no maintainers; each lands in
  the catch block, which overwrites the four fields assigned before.
\<close>

definition getPluginFromNpm :: "host \<Rightarrow> HomebridgePlugin \<Rightarrow> HomebridgePlugin" where
  "getPluginFromNpm h plugin =
     (case rp_get h (name plugin) of
        Inl e \<Rightarrow> npm_catch plugin
      | Inr pkg \<Rightarrow>
          (case pkg_dist_tags pkg of
             None \<Rightarrow> npm_catch plugin
           | Some latest \<Rightarrow>
               (case js_semver_lt h (installedVersion plugin) latest of
                  None \<Rightarrow> npm_catch plugin
                | Some lt \<Rightarrow>
                    (case pkg_maintainers pkg of
                       None \<Rightarrow> npm_catch plugin
                     | Some ms \<Rightarrow>
                         plugin\<lparr>publicPackage := Some True, latestVersion := latest,
                                updateAvailable := Some lt,
                                links := Some \<lparr>npm = Some (''https://www.npmjs.com/package/'' @ name plugin),
                                               homepage = pkg_homepage pkg,
                                               bugs = pkg_bugs_url pkg\<rparr>,
                                author := (case ms of [] \<Rightarrow> None | m # _ \<Rightarrow> Some m)\<rparr>))))"

text \<open>
  \<^verbatim>\<open>parsePackageJson\<close>: \<^verbatim>\<open>pjson.name.indexOf\<close> throws a TypeError when the
  manifest has no name.
\<close>

definition parsePackageJson ::
  "config \<Rightarrow> host \<Rightarrow> json_obj \<Rightarrow> string \<Rightarrow> error + HomebridgePlugin" where
  "parsePackageJson cfg h pjson ipath =
     (case j_name pjson of
        None \<Rightarrow> Inl TypeError
      | Some nm \<Rightarrow>
          Inr (getPluginFromNpm h
            \<lparr>name = nm,
             description = Some (if truthy (j_description pjson)
                                 then strip_urls h (the (j_description pjson)) else nm),
             certifiedPlugin = Some (startsWith ''@homebridge/homebridge-'' nm),
             publicPackage = None,
             installedVersion = (if ipath \<noteq> []
                                 then Some (if truthy (j_version pjson)
                                            then the (j_version pjson) else ''0.0.1'')
                                 else None),
             latestVersion = None,
             lastUpdated = None,
             updateAvailable = None,
             installPath = Some ipath,
             globalInstall = Some (customPluginPath cfg \<noteq> Some ipath),
             settingsSchema = Some (fs_pathExists h
                                      (path_resolve h [ipath, nm, ''config.schema.json''])),
             links = None,
             author = None\<rparr>))"

subsection \<open>Plugin discovery\<close>

text \<open>\<^verbatim>\<open>getInstalledModules\<close>: the loop over \<^verbatim>\<open>this.paths\<close>; a failing
  \<^verbatim>\<open>readdir\<close> rejects the whole call.\<close>

fun getInstalledModules_loop ::
  "host \<Rightarrow> string list \<Rightarrow> installed_module list \<Rightarrow> error + installed_module list" where
  "getInstalledModules_loop h [] allModules = Inr allModules"
| "getInstalledModules_loop h (requiredPath # rest) allModules =
     (case fs_readdir h requiredPath of
        Inl e \<Rightarrow> Inl e
      | Inr modules \<Rightarrow>
          getInstalledModules_loop h rest
            (allModules @
             map (\<lambda>m. \<lparr>m_name = m, m_path = requiredPath,
                        m_installPath = path_join h [requiredPath, m]\<rparr>) modules))"

definition getInstalledModules :: "host \<Rightarrow> service \<Rightarrow> error + installed_module list" where
  "getInstalledModules h st = getInstalledModules_loop h (paths st) []"

text \<open>
  The three filters of \<^verbatim>\<open>getInstalledPlugins\<close> (lines 126 to 129). The second
  one is given an async function: its result is a promise, which is truthy whatever it
  resolves to, so that filter keeps every element; the third keeps every object.
\<close>

definition homebridgePlugins :: "installed_module list \<Rightarrow> installed_module list" where
  "homebridgePlugins modules =
     filter (\<lambda>x. True)
       (filter (\<lambda>module. True)
          (filter (\<lambda>module. startsWith ''homebridge-'' (m_name module)) modules))"

text \<open>
  Lines 133 to 137 of the callback run for each candidate: read the manifest, check the
  keyword, build the record. \<open>Inr None\<close> is the candidate that fails the check; an
  \<open>Inl\<close> is caught (and logged) by the callback. Keywords of a kind without an
  \<^verbatim>\<open>includes\<close> method make line 135 throw a TypeError.
\<close>

definition loadCandidate ::
  "config \<Rightarrow> host \<Rightarrow> installed_module \<Rightarrow> error + HomebridgePlugin option" where
  "loadCandidate cfg h pkg =
     (case fs_readJson h (path_join h [m_installPath pkg, ''package.json'']) of
        Inl e \<Rightarrow> Inl e
      | Inr pjson \<Rightarrow>
          if j_keywords pjson = Some KwOther then Inl TypeError
          else if has_plugin_keyword (j_keywords pjson) then
            (case parsePackageJson cfg h pjson (m_path pkg) of
               Inl e \<Rightarrow> Inl e
             | Inr plugin \<Rightarrow> Inr (Some plugin))
          else Inr None)"

text \<open>Lines 139 to 145: filter out duplicates, with preference to non-global plugins.
  An assignment at index \<open>-1\<close> would not change the elements of the array.\<close>

definition addPlugin :: "HomebridgePlugin list \<Rightarrow> HomebridgePlugin \<Rightarrow> HomebridgePlugin list" where
  "addPlugin plugins plugin =
     (if find (\<lambda>x. name plugin = name x) plugins = None then plugins @ [plugin]
      else if globalInstall plugin \<noteq> Some True \<and>
              find (\<lambda>x. name plugin = name x \<and> globalInstall x = Some True) plugins \<noteq> None
      then (let index = findIndex (\<lambda>x. name plugin = name x \<and> globalInstall x = Some True) plugins
            in if index < 0 then plugins else plugins[nat index := plugin])
      else plugins)"

definition pluginCallback ::
  "config \<Rightarrow> host \<Rightarrow> HomebridgePlugin list \<Rightarrow> installed_module \<Rightarrow> HomebridgePlugin list" where
  "pluginCallback cfg h plugins pkg =
     (case loadCandidate cfg h pkg of
        Inr (Some plugin) \<Rightarrow> addPlugin plugins plugin
      | _ \<Rightarrow> plugins)"

text \<open>
  \<^verbatim>\<open>getInstalledPlugins\<close>. The callbacks run concurrently under
  \<^verbatim>\<open>Promise.all\<close>; each one reaches its duplicate check, which runs without
  interruption, when its file and registry requests are done. \<open>sched\<close> is the order
  in which they get there. The unsorted list is cached in the service; the sorted list is
  returned.
\<close>

definition getInstalledPlugins ::
  "config \<Rightarrow> host \<Rightarrow> (installed_module list \<Rightarrow> installed_module list) \<Rightarrow> service
     \<Rightarrow> (error + HomebridgePlugin list) \<times> service" where
  "getInstalledPlugins cfg h sched st =
     (case getInstalledModules h st of
        Inl e \<Rightarrow> (Inl e, st)
      | Inr modules \<Rightarrow>
          (let plugins = foldl (pluginCallback cfg h) [] (sched (homebridgePlugins modules))
           in (Inr (orderBy plugins), st\<lparr>installedPlugins := Some plugins\<rparr>)))"

subsection \<open>Exact-name registry lookup\<close>


subsection \<open>Config schema\<close>

text \<open>
  \<^verbatim>\<open>configSchema.schema.properties.<prop>.default = v\<close>: a TypeError when the
  schema has no property table or the table has no such property.
\<close>

definition set_default :: "string \<Rightarrow> jvalue \<Rightarrow> json_obj \<Rightarrow> error + json_obj" where
  "set_default prop v configSchema =
     (case j_schema_properties configSchema of
        None \<Rightarrow> Inl TypeError
      | Some props \<Rightarrow>
          (case map_of props prop of
             None \<Rightarrow> Inl TypeError
           | Some pr \<Rightarrow>
               Inr (configSchema\<lparr>j_schema_properties :=
                      Some (AList.update prop (pr\<lparr>prop_default := Some v\<rparr>) props)\<rparr>)))"

text \<open>
  Lines 419 to 442 of \<^verbatim>\<open>getPluginConfigSchema\<close>, given the cached list of
  installed plugins. \<^verbatim>\<open>path.resolve\<close> throws a TypeError on an argument that is
  not a string.
\<close>

definition schemaOf ::
  "config \<Rightarrow> host \<Rightarrow> HomebridgePlugin list \<Rightarrow> string \<Rightarrow> error + json_obj" where
  "schemaOf cfg h installed pluginName =
     (case find (\<lambda>x. name x = pluginName) installed of
        None \<Rightarrow> Inl NotFoundException
      | Some plugin \<Rightarrow>
          (case installPath plugin of
             None \<Rightarrow> Inl TypeError
           | Some ipath \<Rightarrow>
               (let schemaPath = path_resolve h [ipath, pluginName, ''config.schema.json'']
                in if fs_pathExists h schemaPath then
                     (case fs_readJson h schemaPath of
                        Inl e \<Rightarrow> Inl e
                      | Inr configSchema \<Rightarrow>
                          (case (if pluginName = cfg_name cfg
                                 then set_default ''port'' (JNum (ui_port cfg)) configSchema
                                 else Inr configSchema) of
                             Inl e \<Rightarrow> Inl e
                           | Inr configSchema1 \<Rightarrow>
                               if pluginName = ''homebridge-alexa''
                               then set_default ''pin'' (JStr (bridge_pin cfg)) configSchema1
                               else Inr configSchema1))
                   else Inl NotFoundException)))"

text \<open>
  \<^verbatim>\<open>getPluginConfigSchema\<close>. Discovery runs first when nothing is cached (an
  empty array is truthy, so an empty cache counts as cached); its failure is the failure
  of the call.
\<close>

definition getPluginConfigSchema ::
  "config \<Rightarrow> host \<Rightarrow> (installed_module list \<Rightarrow> installed_module list) \<Rightarrow> service \<Rightarrow> string
     \<Rightarrow> (error + json_obj) \<times> service" where
  "getPluginConfigSchema cfg h sched st pluginName =
     (case (if installedPlugins st = None then getInstalledPlugins cfg h sched st
            else (Inr [], st)) of
        (Inl e, st1) \<Rightarrow> (Inl e, st1)
      | (Inr _, st1) \<Rightarrow>
          (case installedPlugins st1 of
             None \<Rightarrow> (Inl TypeError, st1)
           | Some installed \<Rightarrow> (schemaOf cfg h installed pluginName, st1)))"

subsection \<open>Path resolver\<close>

text \<open>\<^verbatim>\<open>String.prototype.split\<close> with a separator of one character.\<close>

fun split_on :: "char \<Rightarrow> string \<Rightarrow> string list" where
  "split_on d [] = [[]]"
| "split_on d (c # cs) =
     (if c = d then [] # split_on d cs
      else (case split_on d cs of [] \<Rightarrow> [[c]] | w # ws \<Rightarrow> (c # w) # ws))"

text \<open>Lines 561 and 562: the non-empty entries of \<^verbatim>\<open>NODE_PATH\<close>.\<close>

definition nodePathEntries :: "host \<Rightarrow> string list" where
  "nodePathEntries h =
     filter (\<lambda>p. p \<noteq> []) (split_on (path_delimiter h) (the (env_NODE_PATH h)))"

text \<open>
  \<^verbatim>\<open>getBasePaths\<close>. \<open>npm_global_modules\<close> is the output of the
  \<^verbatim>\<open>execSync\<close> call, the global prefix of npm followed by
  \<^verbatim>\<open>/lib/node_modules\<close> (the shell command is an echo, taken to succeed).
\<close>

definition getBasePaths :: "config \<Rightarrow> host \<Rightarrow> string list" where
  "getBasePaths cfg h =
     (let paths0 = [] @ require_main_paths h;
          paths1 = (if truthy (customPluginPath cfg)
                    then the (customPluginPath cfg) # paths0 else paths0);
          paths2 = (if truthy (env_NODE_PATH h) then nodePathEntries h @ paths1
                    else if os_platform h = ''win32''
                    then paths1 @ [path_join h [env_APPDATA h, ''npm/node_modules'']]
                    else paths1 @ [''/usr/local/lib/node_modules'', ''/usr/lib/node_modules'',
                                   npm_global_modules h])
      in filter (\<lambda>requiredPath. fs_existsSync h requiredPath) (uniq paths2))"

subsection \<open>Command runner\<close>

text \<open>The promise \<^verbatim>\<open>runNpmCommand\<close> awaits. Once settled, a promise ignores
  later calls of resolve and reject.\<close>

datatype promise = Pending | Resolved | Rejected string

definition settle :: "promise \<Rightarrow> promise \<Rightarrow> promise" where
  "settle current outcome = (case current of Pending \<Rightarrow> outcome | _ \<Rightarrow> current)"

text \<open>\<^verbatim>\<open>"\n\r"\<close>, \<^verbatim>\<open>Array.prototype.join\<close> and the double quote.\<close>

definition nl_cr :: string where
  "nl_cr = [CHR 0x0A, CHR 0x0D]"

fun join_with :: "string \<Rightarrow> string list \<Rightarrow> string" where
  "join_with sep [] = []"
| "join_with sep [x] = x"
| "join_with sep (x # y # ys) = x @ sep @ join_with sep (y # ys)"

definition dquote :: string where
  "dquote = [CHR 0x22]"

text \<open>Lines 647 to 651: what the client is sent when the write-access probe fails.\<close>

definition write_access_warning :: "host \<Rightarrow> string \<Rightarrow> string list" where
  "write_access_warning h cwd =
     [colour_text h Yellow (''The user '' @ dquote @ os_username h @ dquote @
        '' does not have write access to the target directory:'' @ nl_cr @ nl_cr),
      cwd @ nl_cr @ nl_cr,
      colour_text h Yellow (''This may cause the operation to fail.'' @ nl_cr),
      colour_text h Yellow (''See the docs for details on how to enable sudo mode:'' @ nl_cr),
      colour_text h Yellow (''https://github.com/oznu/homebridge-config-ui-x#sudo-mode'' @ nl_cr @ nl_cr)]"

text \<open>Lines 658 and 659.\<close>

definition node_version_warning :: "config \<Rightarrow> host \<Rightarrow> string list" where
  "node_version_warning cfg h =
     [colour_text h Yellow (''Node.js v'' @ minimumNodeVersion cfg @ '' higher is required for '' @
        cfg_name cfg @ ''.'' @ nl_cr),
      colour_text h Yellow (''You may experience issues while running on Node.js '' @
        process_version h @ ''.'' @ nl_cr @ nl_cr)]"

text \<open>Lines 637 to 653: the command that is spawned.\<close>

definition npm_argv :: "config \<Rightarrow> string list \<Rightarrow> string list" where
  "npm_argv cfg command =
     (let command1 = filter (\<lambda>x. x \<noteq> []) command
      in if ui_sudo cfg then [''sudo'', ''-E'', ''-n''] @ command1 else command1)"

text \<open>Lines 639 to 664: everything the client is sent before the process is spawned.\<close>

definition runner_preamble :: "config \<Rightarrow> host \<Rightarrow> string list \<Rightarrow> string \<Rightarrow> string list" where
  "runner_preamble cfg h command cwd =
     (if ui_sudo cfg then []
      else if fs_writable h cwd then [] else write_access_warning h cwd) @
     (if semver_satisfies h (process_version h) (''>='' @ minimumNodeVersion cfg) then []
      else node_version_warning cfg h) @
     [colour_text h Cyan (''USER: '' @ os_username h @ nl_cr),
      colour_text h Cyan (''DIR: '' @ cwd @ nl_cr),
      colour_text h Cyan (''CMD: '' @ join_with '' '' (npm_argv cfg command) @ nl_cr @ nl_cr)]"

text \<open>
  The handlers of the terminal (lines 676 to 690), applied to one event: the promise
  and what the client has been sent so far. The five-minute timer only sends a signal to
  the process; what the promise becomes is decided by the exit event alone.
\<close>

fun term_on :: "host \<Rightarrow> promise \<times> string list \<Rightarrow> pty_event \<Rightarrow> promise \<times> string list" where
  "term_on h (pr, out) (Data d) = (pr, out @ [d])"
| "term_on h (pr, out) (Exit code) =
     (if code = 0
      then (settle pr Resolved,
            out @ [colour_text h Green (nl_cr @ ''Command succeeded!.'' @ nl_cr)])
      else (settle pr (Rejected ''Command failed. Please review log for details.''), out))"

text \<open>
  \<^verbatim>\<open>runNpmCommand\<close>: the state of the awaited promise and the chunks emitted to
  the client as \<^verbatim>\<open>stdout\<close>, in order. \<^verbatim>\<open>command.shift()\<close> is the file to
  spawn (undefined for an empty command), the rest are its arguments. A promise that
  stays \<open>Pending\<close> means the call never returns.
\<close>

definition runNpmCommand ::
  "config \<Rightarrow> host \<Rightarrow> string list \<Rightarrow> string \<Rightarrow> promise \<times> string list" where
  "runNpmCommand cfg h command cwd =
     foldl (term_on h) (Pending, runner_preamble cfg h command cwd)
       (pty_spawn h (case npm_argv cfg command of [] \<Rightarrow> None | f # _ \<Rightarrow> Some f)
          (tl (npm_argv cfg command)) cwd)"

subsection \<open>A candidate as the specification describes it\<close>

text \<open>
  The three conditions the specification puts on a candidate directory: the name has the
  plugin prefix, a manifest file is present at the install path, and the keyword list of
  the parsed manifest contains the plugin keyword.
\<close>

definition eligible_candidate :: "host \<Rightarrow> installed_module \<Rightarrow> bool" where
  "eligible_candidate h pkg =
     (startsWith ''homebridge-'' (m_name pkg) \<and>
      fs_pathExists h (path_join h [m_installPath pkg, ''package.json'']) \<and>
      (case fs_readJson h (path_join h [m_installPath pkg, ''package.json'']) of
         Inl e \<Rightarrow> False
       | Inr pjson \<Rightarrow>
           (case j_keywords pjson of
              Some (KwArray l) \<Rightarrow> ''homebridge-plugin'' \<in> set l
            | _ \<Rightarrow> False)))"

text \<open>A directory that exists on disk, the kind of entry the specification allows in the
  list of base paths.\<close>

definition is_directory :: "host \<Rightarrow> string \<Rightarrow> bool" where
  "is_directory h p = (case fs h p of Some (Directory ns) \<Rightarrow> True | _ \<Rightarrow> False)"

subsection \<open>An example installation\<close>

text \<open>
  A host with a custom plugin directory and a global one. Plugin \<open>homebridge-a\<close> is
  installed in both; \<open>homebridge-b\<close> is not in the registry; \<open>homebridge-c\<close> is
  out of date; \<open>homebridge-x\<close> has no manifest; \<open>lodash\<close> has the keyword but not
  the prefix; \<open>homebridge-k\<close> has no plugin keyword. Paths are joined with a slash,
  colours are left out, and versions are compared as strings, which agrees with semver
  on the one-digit versions used here.
\<close>

definition demo_manifest :: "string \<Rightarrow> string \<Rightarrow> string list option \<Rightarrow> json_obj" where
  "demo_manifest n v ks =
     \<lparr>j_name = Some n, j_description = None, j_keywords = map_option KwArray ks,
      j_version = Some v,
      j_schema_properties = None\<rparr>"

definition demo_schema :: json_obj where
  "demo_schema =
     \<lparr>j_name = None, j_description = None, j_keywords = None, j_version = None,
      j_schema_properties =
        Some [(''port'', \<lparr>prop_default = Some (JNum 8080)\<rparr>),
              (''theme'', \<lparr>prop_default = Some (JStr ''red'')\<rparr>)]\<rparr>"

definition demo_fs :: "string \<Rightarrow> fsnode option" where
  "demo_fs p =
     (if p = ''/custom'' then Some (Directory [''homebridge-a''])
      else if p = ''/global''
      then Some (Directory [''homebridge-a'', ''homebridge-b'', ''homebridge-c'',
                            ''homebridge-x'', ''lodash'', ''homebridge-k''])
      else if p = ''/custom/homebridge-a/package.json''
      then Some (JsonFile (demo_manifest ''homebridge-a'' ''2.0.0'' (Some [''homebridge-plugin''])))
      else if p = ''/global/homebridge-a/package.json''
      then Some (JsonFile (demo_manifest ''homebridge-a'' ''1.0.0'' (Some [''homebridge-plugin''])))
      else if p = ''/global/homebridge-b/package.json''
      then Some (JsonFile (demo_manifest ''homebridge-b'' ''1.0.0'' (Some [''homebridge-plugin''])))
      else if p = ''/global/homebridge-c/package.json''
      then Some (JsonFile (demo_manifest ''homebridge-c'' ''1.0.0'' (Some [''x'', ''homebridge-plugin''])))
      else if p = ''/global/lodash/package.json''
      then Some (JsonFile (demo_manifest ''lodash'' ''4.0.0'' (Some [''homebridge-plugin''])))
      else if p = ''/global/homebridge-k/package.json''
      then Some (JsonFile (demo_manifest ''homebridge-k'' ''1.0.0'' (Some [''other''])))
      else if p = ''/global/homebridge-config-ui-x/config.schema.json''
      then Some (JsonFile demo_schema)
      else None)"

definition demo_doc :: "string \<Rightarrow> string \<Rightarrow> string list option \<Rightarrow> registry_doc" where
  "demo_doc n v ks =
     \<lparr>pkg_name = n, pkg_description = None, pkg_keywords = ks,
      pkg_dist_tags = Some (Some v), pkg_homepage = None, pkg_bugs_url = None,
      pkg_maintainers = Some [''alice''], pkg_package_date = None\<rparr>"

definition demo_registry :: "string \<Rightarrow> http_error + registry_doc" where
  "demo_registry n =
     (if n = ''homebridge-a'' then Inr (demo_doc n ''2.0.0'' (Some [''homebridge-plugin'']))
      else if n = ''homebridge-c'' then Inr (demo_doc n ''3.0.0'' (Some [''homebridge-plugin'']))
      else if n = ''homebridge-legacy'' then Inr (demo_doc n ''1.0.0'' (Some [''homekit'']))
      else Inl (StatusCodeError 404))"

definition demo_spawn :: "string option \<Rightarrow> string list \<Rightarrow> string \<Rightarrow> pty_event list" where
  "demo_spawn file args cwd =
     (if cwd = ''/custom'' then [Data ''added 1 package'', Exit 0]
      else [Data ''npm ERR!'', Exit 1])"

definition demo_host :: host where
  "demo_host =
     \<lparr>fs = demo_fs,
      fs_writable = (\<lambda>p. p = ''/custom''),
      path_join = join_with ''/'',
      path_resolve = join_with ''/'',
      path_delimiter = CHR '':'',
      os_platform = ''linux'',
      os_username = ''pi'',
      process_version = ''v10.15.0'',
      env_NODE_PATH = None,
      env_APPDATA = [],
      require_main_paths = [''/global''],
      npm_global_modules = ''/usr/lib/node_modules'',
      rp_get = demo_registry,
      semver_lt = (\<lambda>x y. if x = [] \<or> y = [] then None else Some (x < y)),
      semver_satisfies = (\<lambda>v r. True),
      strip_urls = (\<lambda>s. s),
      colour_text = (\<lambda>c s. s),
      pty_spawn = demo_spawn\<rparr>"

definition demo_config :: config where
  "demo_config =
     \<lparr>customPluginPath = Some ''/custom'', cfg_name = ''homebridge-config-ui-x'',
      ui_port = 8581, ui_sudo = False, minimumNodeVersion = ''8.15.1'',
      bridge_pin = ''031-45-154''\<rparr>"

definition demo_service :: service where
  "demo_service = \<lparr>paths = [''/custom'', ''/global''], installedPlugins = None\<rparr>"

definition demo_modules :: "installed_module list" where
  "demo_modules =
     [\<lparr>m_name = ''homebridge-a'', m_path = ''/custom'', m_installPath = ''/custom/homebridge-a''\<rparr>,
      \<lparr>m_name = ''homebridge-a'', m_path = ''/global'', m_installPath = ''/global/homebridge-a''\<rparr>,
      \<lparr>m_name = ''homebridge-b'', m_path = ''/global'', m_installPath = ''/global/homebridge-b''\<rparr>,
      \<lparr>m_name = ''homebridge-c'', m_path = ''/global'', m_installPath = ''/global/homebridge-c''\<rparr>,
      \<lparr>m_name = ''homebridge-x'', m_path = ''/global'', m_installPath = ''/global/homebridge-x''\<rparr>,
      \<lparr>m_name = ''lodash'', m_path = ''/global'', m_installPath = ''/global/lodash''\<rparr>,
      \<lparr>m_name = ''homebridge-k'', m_path = ''/global'', m_installPath = ''/global/homebridge-k''\<rparr>]"

definition sample_record :: "string \<Rightarrow> bool \<Rightarrow> HomebridgePlugin" where
  "sample_record n u =
     \<lparr>name = n, description = None, certifiedPlugin = None, publicPackage = None,
      installedVersion = None, latestVersion = None, lastUpdated = None,
      updateAvailable = Some u, installPath = None, globalInstall = None,
      settingsSchema = None, links = None, author = None\<rparr>"

definition demo_custom_a :: installed_module where
  "demo_custom_a =
     \<lparr>m_name = ''homebridge-a'', m_path = ''/custom'', m_installPath = ''/custom/homebridge-a''\<rparr>"

definition demo_record_a :: HomebridgePlugin where
  "demo_record_a =
     \<lparr>name = ''homebridge-a'', description = Some ''homebridge-a'',
      certifiedPlugin = Some False, publicPackage = Some True,
      installedVersion = Some ''2.0.0'', latestVersion = Some ''2.0.0'',
      lastUpdated = None, updateAvailable = Some False,
      installPath = Some ''/custom'', globalInstall = Some False,
      settingsSchema = Some False,
      links = Some \<lparr>npm = Some ''https://www.npmjs.com/package/homebridge-a'',
                     homepage = None, bugs = None\<rparr>,
      author = Some ''alice''\<rparr>"

definition demo_global_b :: installed_module where
  "demo_global_b =
     \<lparr>m_name = ''homebridge-b'', m_path = ''/global'', m_installPath = ''/global/homebridge-b''\<rparr>"


definition demo_cached :: service where
  "demo_cached =
     \<lparr>paths = [''/custom'', ''/global''],
      installedPlugins =
        Some [demo_record_a,
              (sample_record ''homebridge-config-ui-x'' False)\<lparr>installPath := Some ''/global''\<rparr>]\<rparr>"

definition demo_schema_out :: json_obj where
  "demo_schema_out =
     demo_schema\<lparr>j_schema_properties :=
       Some [(''port'', \<lparr>prop_default = Some (JNum 8581)\<rparr>),
             (''theme'', \<lparr>prop_default = Some (JStr ''red'')\<rparr>)]\<rparr>"

definition demo_nodepath :: host where
  "demo_nodepath = demo_host\<lparr>env_NODE_PATH := Some ''/global:''\<rparr>"

definition demo_nodepath_file :: host where
  "demo_nodepath_file = demo_host\<lparr>env_NODE_PATH := Some ''/global/lodash/package.json''\<rparr>"

text \<open>An installation whose only plugin directory has a string as the keywords of its
  manifest.\<close>

definition string_keywords_manifest :: json_obj where
  "string_keywords_manifest =
     \<lparr>j_name = Some ''homebridge-s'', j_description = None,
      j_keywords = Some (KwString ''not-a-homebridge-plugin-at-all''),
      j_version = Some ''1.0.0'', j_schema_properties = None\<rparr>"

definition string_keywords_fs :: "string \<Rightarrow> fsnode option" where
  "string_keywords_fs p =
     (if p = ''/global'' then Some (Directory [''homebridge-s''])
      else if p = ''/global/homebridge-s/package.json''
      then Some (JsonFile string_keywords_manifest)
      else None)"

definition string_keywords_host :: host where
  "string_keywords_host = demo_host\<lparr>fs := string_keywords_fs\<rparr>"

definition string_keywords_service :: service where
  "string_keywords_service = \<lparr>paths = [''/global''], installedPlugins = None\<rparr>"

definition string_keywords_module :: installed_module where
  "string_keywords_module =
     \<lparr>m_name = ''homebridge-s'', m_path = ''/global'',
      m_installPath = ''/global/homebridge-s''\<rparr>"




section \<open>Properties\<close>

subsection \<open>Array primitives and the duplicate filter\<close>

lemma findIndex_from_found:
  "find P xs \<noteq> None \<Longrightarrow>
     i \<le> findIndex_from i P xs \<and> nat (findIndex_from i P xs - i) < length xs \<and>
     P (xs ! nat (findIndex_from i P xs - i))"
proof (induction xs arbitrary: i)
  case Nil
  then show ?case by simp
next
  case (Cons x xs)
  show ?case
  proof (cases "P x")
    case True
    then show ?thesis by simp
  next
    case False
    with Cons.prems have f: "find P xs \<noteq> None" by simp
    define k where "k = findIndex_from (i + 1) P xs"
    from Cons.IH [OF f, of "i + 1"]
    have ih: "i + 1 \<le> k" "nat (k - (i + 1)) < length xs" "P (xs ! nat (k - (i + 1)))"
      by (simp_all add: k_def)
    from ih(1) have eq: "nat (k - i) = Suc (nat (k - (i + 1)))" by arith
    have "findIndex_from i P (x # xs) = k" using False by (simp add: k_def)
    with ih eq show ?thesis by simp
  qed
qed

lemma findIndex_found:
  assumes "find P xs \<noteq> None"
  shows "0 \<le> findIndex P xs" and "nat (findIndex P xs) < length xs"
    and "P (xs ! nat (findIndex P xs))"
  using findIndex_from_found [OF assms, of 0] by (simp_all add: findIndex_def)

lemma addPlugin_names:
  "map name (addPlugin ps p) = (if name p \<in> name ` set ps then map name ps else map name ps @ [name p])"
proof -
  let ?Q = "\<lambda>x. name p = name x \<and> globalInstall x = Some True"
  have upd: "map name (ps[nat (findIndex ?Q ps) := p]) = map name ps" if "find ?Q ps \<noteq> None"
  proof -
    from findIndex_found [OF that]
    have "nat (findIndex ?Q ps) < length ps" and "name (ps ! nat (findIndex ?Q ps)) = name p"
      by simp_all
    then show ?thesis
      by (simp add: map_update list_update_same_conv)
  qed
  have none: "find (\<lambda>x. name p = name x) ps = None \<longleftrightarrow> name p \<notin> name ` set ps"
    by (auto simp: find_None_iff)
  show ?thesis
    using upd none by (auto simp: addPlugin_def Let_def)
qed

lemma set_update_other:
  assumes "x \<in> set xs" and "x \<noteq> xs ! i"
  shows "x \<in> set (xs[i := v])"
proof -
  from assms(1) obtain j where j: "j < length xs" "xs ! j = x"
    by (auto simp: in_set_conv_nth)
  with assms(2) have "j \<noteq> i" by auto
  with j have "(xs[i := v]) ! j = x" by simp
  with j(1) show ?thesis by (metis length_list_update nth_mem)
qed

lemma addPlugin_subset: "set (addPlugin ps p) \<subseteq> insert p (set ps)"
proof -
  have "set (ps[i := p]) \<subseteq> insert p (set ps)" for i
    by (rule set_update_subset_insert)
  then show ?thesis
    by (auto simp: addPlugin_def Let_def)
qed

lemma addPlugin_self:
  "\<exists>x\<in>set (addPlugin ps p). name x = name p \<and>
     (globalInstall p \<noteq> Some True \<longrightarrow> globalInstall x \<noteq> Some True)"
proof -
  let ?Q = "\<lambda>x. name p = name x \<and> globalInstall x = Some True"
  consider (fresh) "find (\<lambda>x. name p = name x) ps = None"
    | (replace) "find (\<lambda>x. name p = name x) ps \<noteq> None" "globalInstall p \<noteq> Some True"
        "find ?Q ps \<noteq> None"
    | (keep) "find (\<lambda>x. name p = name x) ps \<noteq> None"
        "globalInstall p = Some True \<or> find ?Q ps = None"
    by blast
  then show ?thesis
  proof cases
    case fresh
    then show ?thesis by (simp add: addPlugin_def)
  next
    case replace
    from findIndex_found [OF replace(3)]
    have i: "0 \<le> findIndex ?Q ps" "nat (findIndex ?Q ps) < length ps" by simp_all
    then have "p \<in> set (ps[nat (findIndex ?Q ps) := p])"
      by (simp add: set_update_memI)
    with replace i show ?thesis
      by (auto simp: addPlugin_def Let_def)
  next
    case keep
    from keep(1) obtain x where x: "x \<in> set ps" "name p = name x"
      by (auto simp: find_None_iff)
    from keep have same: "addPlugin ps p = ps"
      by (auto simp: addPlugin_def)
    from keep(2) x have "globalInstall p \<noteq> Some True \<longrightarrow> globalInstall x \<noteq> Some True"
      by (auto simp: find_None_iff)
    with x same show ?thesis by auto
  qed
qed

lemma addPlugin_keeps:
  assumes "\<exists>x\<in>set ps. name x = n \<and> (g \<longrightarrow> globalInstall x \<noteq> Some True)"
  shows "\<exists>x\<in>set (addPlugin ps p). name x = n \<and> (g \<longrightarrow> globalInstall x \<noteq> Some True)"
proof -
  let ?Q = "\<lambda>x. name p = name x \<and> globalInstall x = Some True"
  from assms obtain x where x: "x \<in> set ps" "name x = n" "g \<longrightarrow> globalInstall x \<noteq> Some True"
    by blast
  consider (fresh) "find (\<lambda>x. name p = name x) ps = None"
    | (replace) "find (\<lambda>x. name p = name x) ps \<noteq> None" "globalInstall p \<noteq> Some True"
        "find ?Q ps \<noteq> None"
    | (keep) "find (\<lambda>x. name p = name x) ps \<noteq> None"
        "globalInstall p = Some True \<or> find ?Q ps = None"
    by blast
  then show ?thesis
  proof cases
    case fresh
    with x show ?thesis by (auto simp: addPlugin_def)
  next
    case replace
    define i where "i = nat (findIndex ?Q ps)"
    from findIndex_found [OF replace(3)]
    have i: "0 \<le> findIndex ?Q ps" "i < length ps" "name p = name (ps ! i)"
      "globalInstall (ps ! i) = Some True"
      by (simp_all add: i_def)
    have res: "addPlugin ps p = ps[i := p]"
      using replace i(1) by (simp add: addPlugin_def Let_def i_def del: not_None_eq)
    show ?thesis
    proof (cases "x = ps ! i")
      case True
      with i x have "\<not> g" and "name p = n" by auto
      moreover have "p \<in> set (ps[i := p])" using i(2) by (simp add: set_update_memI)
      ultimately show ?thesis unfolding res by blast
    next
      case False
      with x(1) have "x \<in> set (ps[i := p])" by (rule set_update_other)
      with x show ?thesis unfolding res by blast
    qed
  next
    case keep
    then have "addPlugin ps p = ps" by (auto simp: addPlugin_def)
    with assms show ?thesis by simp
  qed
qed

lemma addPlugin_distinct:
  "distinct (map name ps) \<Longrightarrow> distinct (map name (addPlugin ps p))"
  by (simp add: addPlugin_names)

lemma discover_distinct:
  "distinct (map name ps) \<Longrightarrow> distinct (map name (foldl (pluginCallback cfg h) ps order))"
proof (induction order arbitrary: ps)
  case Nil
  then show ?case by simp
next
  case (Cons pkg order)
  have "distinct (map name (pluginCallback cfg h ps pkg))"
    using Cons.prems
    by (auto simp: pluginCallback_def addPlugin_distinct split: sum.splits option.splits)
  then show ?case using Cons.IH by simp
qed

lemma discover_origin:
  "r \<in> set (foldl (pluginCallback cfg h) ps order) \<Longrightarrow>
     r \<in> set ps \<or> (\<exists>pkg\<in>set order. loadCandidate cfg h pkg = Inr (Some r))"
proof (induction order arbitrary: ps)
  case Nil
  then show ?case by simp
next
  case (Cons pkg order)
  from Cons.prems have "r \<in> set (foldl (pluginCallback cfg h) (pluginCallback cfg h ps pkg) order)"
    by simp
  from Cons.IH [OF this]
  consider "r \<in> set (pluginCallback cfg h ps pkg)"
    | "\<exists>q\<in>set order. loadCandidate cfg h q = Inr (Some r)"
    by blast
  then show ?case
  proof cases
    case 1
    then have "r \<in> set ps \<or> loadCandidate cfg h pkg = Inr (Some r)"
      using addPlugin_subset
      by (fastforce simp: pluginCallback_def split: sum.splits option.splits)
    then show ?thesis by auto
  next
    case 2
    then show ?thesis by auto
  qed
qed

lemma pluginCallback_keeps:
  assumes "\<exists>x\<in>set ps. name x = n \<and> (g \<longrightarrow> globalInstall x \<noteq> Some True)"
  shows "\<exists>x\<in>set (pluginCallback cfg h ps pkg). name x = n \<and> (g \<longrightarrow> globalInstall x \<noteq> Some True)"
  using assms addPlugin_keeps [OF assms]
  by (simp add: pluginCallback_def split: sum.splits option.splits)

lemma discover_keeps:
  "\<exists>x\<in>set ps. name x = n \<and> (g \<longrightarrow> globalInstall x \<noteq> Some True) \<Longrightarrow>
   \<exists>x\<in>set (foldl (pluginCallback cfg h) ps order). name x = n \<and> (g \<longrightarrow> globalInstall x \<noteq> Some True)"
proof (induction order arbitrary: ps)
  case Nil
  then show ?case by simp
next
  case (Cons pkg order)
  from pluginCallback_keeps [OF Cons.prems]
  have "\<exists>x\<in>set (pluginCallback cfg h ps pkg). name x = n \<and> (g \<longrightarrow> globalInstall x \<noteq> Some True)" .
  from Cons.IH [OF this] show ?case by simp
qed

lemma discover_covers:
  assumes "pkg \<in> set order" and "loadCandidate cfg h pkg = Inr (Some r)"
  shows "\<exists>x\<in>set (foldl (pluginCallback cfg h) ps order). name x = name r \<and>
           (globalInstall r \<noteq> Some True \<longrightarrow> globalInstall x \<noteq> Some True)"
  using assms(1)
proof (induction order arbitrary: ps)
  case Nil
  then show ?case by simp
next
  case (Cons q order)
  show ?case
  proof (cases "q = pkg")
    case True
    have "pluginCallback cfg h ps q = addPlugin ps r"
      using True assms(2) by (simp add: pluginCallback_def)
    with addPlugin_self [of ps r]
    have "\<exists>x\<in>set (pluginCallback cfg h ps q). name x = name r \<and>
            (globalInstall r \<noteq> Some True \<longrightarrow> globalInstall x \<noteq> Some True)" by simp
    from discover_keeps [OF this] show ?thesis by simp
  next
    case False
    with Cons.prems have "pkg \<in> set order" by simp
    from Cons.IH [OF this] show ?thesis by simp
  qed
qed

lemma discover_skip:
  assumes "\<And>pkg. pkg \<in> set order \<Longrightarrow> \<not> keep pkg \<Longrightarrow> (\<forall>r. loadCandidate cfg h pkg \<noteq> Inr (Some r))"
  shows "foldl (pluginCallback cfg h) ps (filter keep order) = foldl (pluginCallback cfg h) ps order"
  using assms
proof (induction order arbitrary: ps)
  case Nil
  then show ?case by simp
next
  case (Cons pkg order)
  have ih: "foldl (pluginCallback cfg h) qs (filter keep order) = foldl (pluginCallback cfg h) qs order" for qs
    using Cons.IH Cons.prems by simp
  show ?case
  proof (cases "keep pkg")
    case True
    then show ?thesis using ih by simp
  next
    case False
    with Cons.prems have "\<forall>r. loadCandidate cfg h pkg \<noteq> Inr (Some r)" by simp
    then have "pluginCallback cfg h ps pkg = ps"
      by (auto simp: pluginCallback_def split: sum.splits option.splits)
    with False show ?thesis using ih by simp
  qed
qed

lemma orderBy_set: "set (orderBy ps) = set ps"
  by (simp add: orderBy_def)

lemma orderBy_mset: "mset (orderBy ps) = mset ps"
  by (simp add: orderBy_def)

lemma orderBy_sorted: "sorted (map orderBy_key (orderBy ps))"
  by (simp add: orderBy_def)

lemma orderBy_distinct: "distinct (map name (orderBy ps)) = distinct (map name ps)"
proof -
  have "mset (map name (orderBy ps)) = mset (map name ps)"
    by (simp add: orderBy_mset)
  then show ?thesis by (rule mset_eq_imp_distinct_iff)
qed

subsection \<open>Facts about the registry client and the callback\<close>

lemma getPluginFromNpm_fields:
  "name (getPluginFromNpm h p) = name p"
  "installPath (getPluginFromNpm h p) = installPath p"
  "globalInstall (getPluginFromNpm h p) = globalInstall p"
  "installedVersion (getPluginFromNpm h p) = installedVersion p"
  by (simp_all add: getPluginFromNpm_def npm_catch_def split: sum.splits option.splits)

lemma getPluginFromNpm_updateAvailable_defined:
  "updateAvailable (getPluginFromNpm h p) \<noteq> None"
  by (auto simp: getPluginFromNpm_def npm_catch_def split: sum.splits option.splits)

lemma loadCandidate_Some:
  assumes "loadCandidate cfg h pkg = Inr (Some r)"
  shows "\<exists>pjson. fs_readJson h (path_join h [m_installPath pkg, ''package.json'']) = Inr pjson \<and>
           has_plugin_keyword (j_keywords pjson) \<and> j_name pjson = Some (name r) \<and>
           parsePackageJson cfg h pjson (m_path pkg) = Inr r"
    and "installPath r = Some (m_path pkg)"
    and "globalInstall r = Some (customPluginPath cfg \<noteq> Some (m_path pkg))"
    and "updateAvailable r \<noteq> None"
proof -
  let ?mf = "path_join h [m_installPath pkg, ''package.json'']"
  from assms obtain pjson where pj: "fs_readJson h ?mf = Inr pjson"
    "has_plugin_keyword (j_keywords pjson)" "parsePackageJson cfg h pjson (m_path pkg) = Inr r"
    by (auto simp: loadCandidate_def split: sum.splits if_splits)
  from pj(3) obtain nm base where base: "j_name pjson = Some nm" "r = getPluginFromNpm h base"
    "name base = nm" "installPath base = Some (m_path pkg)"
    "globalInstall base = Some (customPluginPath cfg \<noteq> Some (m_path pkg))"
    by (auto simp: parsePackageJson_def split: option.splits)
  from base have nm: "j_name pjson = Some (name r)"
    by (simp add: getPluginFromNpm_fields)
  with pj show "\<exists>pjson. fs_readJson h ?mf = Inr pjson \<and>
           has_plugin_keyword (j_keywords pjson) \<and> j_name pjson = Some (name r) \<and>
           parsePackageJson cfg h pjson (m_path pkg) = Inr r" by blast
  from base show "installPath r = Some (m_path pkg)"
    by (simp add: getPluginFromNpm_fields)
  from base show "globalInstall r = Some (customPluginPath cfg \<noteq> Some (m_path pkg))"
    by (simp add: getPluginFromNpm_fields)
  from base show "updateAvailable r \<noteq> None"
    by (simp add: getPluginFromNpm_updateAvailable_defined del: not_None_eq)
qed

lemma fs_readJson_exists: "fs_readJson h p = Inr j \<Longrightarrow> fs_pathExists h p"
  by (auto simp: fs_readJson_def fs_pathExists_def split: option.splits fsnode.splits)

lemma homebridgePlugins_set:
  "set (homebridgePlugins modules) = {m \<in> set modules. startsWith ''homebridge-'' (m_name m)}"
  by (auto simp: homebridgePlugins_def)

lemma has_plugin_keyword_not_other:
  "has_plugin_keyword ks \<Longrightarrow> ks \<noteq> Some KwOther"
  by (auto simp: has_plugin_keyword_def)

lemma getInstalledPlugins_result:
  assumes "getInstalledModules h st = Inr modules"
  shows "getInstalledPlugins cfg h sched st =
           (Inr (orderBy (foldl (pluginCallback cfg h) [] (sched (homebridgePlugins modules)))),
            st\<lparr>installedPlugins :=
                 Some (foldl (pluginCallback cfg h) [] (sched (homebridgePlugins modules)))\<rparr>)"
  using assms by (simp add: getInstalledPlugins_def Let_def)

lemma distinct_map_filter_single:
  "distinct (map f xs) \<Longrightarrow> x \<in> set xs \<Longrightarrow> filter (\<lambda>y. f y = f x) xs = [x]"
proof (induction xs)
  case Nil
  then show ?case by simp
next
  case (Cons a xs)
  show ?case
  proof (cases "a = x")
    case True
    from Cons.prems(1) have "f a \<notin> f ` set xs" by simp
    with True have "\<forall>y\<in>set xs. f y \<noteq> f x" by (metis imageI)
    then have "filter (\<lambda>y. f y = f x) xs = []" by (simp add: filter_empty_conv)
    with True show ?thesis by simp
  next
    case False
    with Cons.prems have "x \<in> set xs" "f a \<noteq> f x" by auto
    with Cons show ?thesis by simp
  qed
qed

lemma loadCandidate_total:
  assumes "fs_readJson h (path_join h [m_installPath pkg, ''package.json'']) = Inr pjson"
    and "has_plugin_keyword (j_keywords pjson)" and "j_name pjson = Some nm"
  shows "\<exists>r. loadCandidate cfg h pkg = Inr (Some r) \<and> name r = nm"
  using assms has_plugin_keyword_not_other [OF assms(2)]
  by (simp add: loadCandidate_def parsePackageJson_def getPluginFromNpm_fields)

lemma getPluginFromNpm_failure:
  "rp_get h (name plugin) = Inl e \<Longrightarrow> getPluginFromNpm h plugin = npm_catch plugin"
  by (simp add: getPluginFromNpm_def)

subsection \<open>The example installation, evaluated\<close>

lemma demo_getInstalledModules: "getInstalledModules demo_host demo_service = Inr demo_modules"
  by code_simp

lemma demo_names:
  "map name (projr (fst (getInstalledPlugins demo_config demo_host rev demo_service))) =
     [''homebridge-c'', ''homebridge-a'', ''homebridge-b'']"
  by code_simp

lemma demo_fair:
  "mset (rev (homebridgePlugins demo_modules)) = mset (homebridgePlugins demo_modules)"
  by simp

lemma demo_load_custom_a:
  "demo_custom_a \<in> set (homebridgePlugins demo_modules) \<and>
   loadCandidate demo_config demo_host demo_custom_a = Inr (Some demo_record_a) \<and>
   globalInstall demo_record_a = Some False \<and> name demo_record_a = ''homebridge-a''"
  by code_simp

subsection \<open>Discovery: which candidates are returned\<close>

text \<open>
  What holds of every result, when the module scan succeeds and every callback runs
  once: each record was built from a candidate directory with the \<open>homebridge-\<close>
  prefix and a manifest file at its install path whose keywords pass the test of line
  135.
\<close>

lemma getInstalledPlugins_origin:
  assumes "getInstalledModules h st = Inr modules"
    and "mset (sched (homebridgePlugins modules)) = mset (homebridgePlugins modules)"
  shows "\<exists>result. fst (getInstalledPlugins cfg h sched st) = Inr result \<and>
           (\<forall>r\<in>set result. \<exists>pkg\<in>set modules.
               startsWith ''homebridge-'' (m_name pkg) \<and>
               fs_pathExists h (path_join h [m_installPath pkg, ''package.json'']) \<and>
               (\<exists>pjson. fs_readJson h (path_join h [m_installPath pkg, ''package.json'']) = Inr pjson \<and>
                   has_plugin_keyword (j_keywords pjson)) \<and>
               loadCandidate cfg h pkg = Inr (Some r))"
proof -
  let ?order = "sched (homebridgePlugins modules)"
  let ?plugins = "foldl (pluginCallback cfg h) [] ?order"
  from assms(2) have order: "set ?order = set (homebridgePlugins modules)"
    by (rule mset_eq_setD)
  have res: "fst (getInstalledPlugins cfg h sched st) = Inr (orderBy ?plugins)"
    by (simp add: getInstalledPlugins_result [OF assms(1)])
  have origin: "\<exists>pkg\<in>set modules.
               startsWith ''homebridge-'' (m_name pkg) \<and>
               fs_pathExists h (path_join h [m_installPath pkg, ''package.json'']) \<and>
               (\<exists>pjson. fs_readJson h (path_join h [m_installPath pkg, ''package.json'']) = Inr pjson \<and>
                   has_plugin_keyword (j_keywords pjson)) \<and>
               loadCandidate cfg h pkg = Inr (Some r)"
    if "r \<in> set (orderBy ?plugins)" for r
  proof -
    from that have "r \<in> set ?plugins" by (simp add: orderBy_set)
    from discover_origin [OF this] obtain pkg where
      pkg: "pkg \<in> set ?order" "loadCandidate cfg h pkg = Inr (Some r)" by auto
    from pkg(1) order have m: "pkg \<in> set modules" "startsWith ''homebridge-'' (m_name pkg)"
      by (simp_all add: homebridgePlugins_set)
    from loadCandidate_Some(1) [OF pkg(2)] obtain pjson where
      pj: "fs_readJson h (path_join h [m_installPath pkg, ''package.json'']) = Inr pjson"
        "has_plugin_keyword (j_keywords pjson)" by blast
    from pj(1) have "fs_pathExists h (path_join h [m_installPath pkg, ''package.json''])"
      by (rule fs_readJson_exists)
    with m pj pkg(2) show ?thesis by blast
  qed
  from res origin show ?thesis by blast
qed

text \<open>For a manifest whose keywords are an array, the test of line 135 is membership
  in the keyword list.\<close>

lemma has_plugin_keyword_array:
  "has_plugin_keyword (Some (KwArray l)) = (''homebridge-plugin'' \<in> set l)"
  by (simp add: has_plugin_keyword_def)

text \<open>
  Claim C1 says that a candidate is returned only if its name has the prefix, its
  manifest file is present and the keyword list of the manifest contains
  \<open>homebridge-plugin\<close>. The code does not keep to the last condition:
  \<open>homebridge-s\<close> has the string \<open>not-a-homebridge-plugin-at-all\<close> as the
  keywords of its manifest, so there is no keyword list that contains the keyword and the
  candidate is not one the specification admits, yet line 135 finds the substring and
  discovery returns a record for it.
\<close>

theorem getInstalledPlugins_string_keywords:
  "getInstalledModules string_keywords_host string_keywords_service =
     Inr [string_keywords_module] \<and>
   fs_readJson string_keywords_host
     (path_join string_keywords_host [m_installPath string_keywords_module, ''package.json'']) =
     Inr string_keywords_manifest \<and>
   j_keywords string_keywords_manifest = Some (KwString ''not-a-homebridge-plugin-at-all'') \<and>
   \<not> eligible_candidate string_keywords_host string_keywords_module \<and>
   map_sum id (map name)
     (fst (getInstalledPlugins demo_config string_keywords_host (\<lambda>order. order)
             string_keywords_service)) =
     Inr [''homebridge-s'']"
  by code_simp

subsection \<open>Discovery: one record per name, custom installs win\<close>

text \<open>
  Claim C2. The returned list has at most one record per package name; and whenever a
  candidate of the custom plugin path yields a record (whether or not a global install
  of the same name exists), the list holds exactly one record of that name, and it is a
  record built from a candidate of the custom plugin path.
\<close>

theorem getInstalledPlugins_unique_prefers_custom:
  assumes "getInstalledModules h st = Inr modules"
    and "mset (sched (homebridgePlugins modules)) = mset (homebridgePlugins modules)"
  shows "\<exists>result. fst (getInstalledPlugins cfg h sched st) = Inr result \<and>
           distinct (map name result) \<and>
           (\<forall>pkg\<in>set (homebridgePlugins modules). \<forall>r.
               loadCandidate cfg h pkg = Inr (Some r) \<and> globalInstall r = Some False \<longrightarrow>
               (\<exists>x\<in>set result. \<exists>pkg'\<in>set (homebridgePlugins modules).
                   loadCandidate cfg h pkg' = Inr (Some x) \<and>
                   customPluginPath cfg = Some (m_path pkg') \<and>
                   globalInstall x = Some False \<and>
                   filter (\<lambda>y. name y = name r) result = [x]))"
proof -
  let ?order = "sched (homebridgePlugins modules)"
  let ?plugins = "foldl (pluginCallback cfg h) [] ?order"
  from assms(2) have order: "set ?order = set (homebridgePlugins modules)"
    by (rule mset_eq_setD)
  have res: "fst (getInstalledPlugins cfg h sched st) = Inr (orderBy ?plugins)"
    by (simp add: getInstalledPlugins_result [OF assms(1)])
  have "distinct (map name ?plugins)"
    by (rule discover_distinct) simp
  then have dist: "distinct (map name (orderBy ?plugins))"
    by (simp add: orderBy_distinct)
  have pref: "\<exists>x\<in>set (orderBy ?plugins). \<exists>pkg'\<in>set (homebridgePlugins modules).
                 loadCandidate cfg h pkg' = Inr (Some x) \<and>
                 customPluginPath cfg = Some (m_path pkg') \<and>
                 globalInstall x = Some False \<and>
                 filter (\<lambda>y. name y = name r) (orderBy ?plugins) = [x]"
    if pkg: "pkg \<in> set (homebridgePlugins modules)"
      and r: "loadCandidate cfg h pkg = Inr (Some r)" "globalInstall r = Some False"
    for pkg r
  proof -
    from pkg order have "pkg \<in> set ?order" by simp
    from discover_covers [OF this r(1), of "[]"] r(2)
    obtain x where x: "x \<in> set ?plugins" "name x = name r" "globalInstall x \<noteq> Some True"
      by auto
    from discover_origin [OF x(1)] order obtain pkg' where
      pkg': "pkg' \<in> set (homebridgePlugins modules)" "loadCandidate cfg h pkg' = Inr (Some x)"
      by auto
    from loadCandidate_Some(3) [OF pkg'(2)] x(3)
    have g: "globalInstall x = Some False" "customPluginPath cfg = Some (m_path pkg')"
      by auto
    from x(1) have "x \<in> set (orderBy ?plugins)" by (simp add: orderBy_set)
    moreover from distinct_map_filter_single [OF dist this] x(2)
    have "filter (\<lambda>y. name y = name r) (orderBy ?plugins) = [x]" by simp
    ultimately show ?thesis using pkg' g by blast
  qed
  from res dist pref show ?thesis by blast
qed

theorem getInstalledPlugins_unique_prefers_custom_witness:
  "getInstalledModules demo_host demo_service = Inr demo_modules \<and>
   loadCandidate demo_config demo_host demo_custom_a = Inr (Some demo_record_a) \<and>
   (\<exists>result x. fst (getInstalledPlugins demo_config demo_host rev demo_service) = Inr result \<and>
      distinct (map name result) \<and>
      filter (\<lambda>y. name y = ''homebridge-a'') result = [x] \<and>
      globalInstall x = Some False)"
proof -
  from getInstalledPlugins_unique_prefers_custom [where sched = rev and cfg = demo_config, OF demo_getInstalledModules demo_fair]
  obtain result where r1: "fst (getInstalledPlugins demo_config demo_host rev demo_service) = Inr result"
    and r2: "distinct (map name result)"
    and pref: "\<forall>pkg\<in>set (homebridgePlugins demo_modules). \<forall>r.
               loadCandidate demo_config demo_host pkg = Inr (Some r) \<and> globalInstall r = Some False \<longrightarrow>
               (\<exists>x\<in>set result. \<exists>pkg'\<in>set (homebridgePlugins demo_modules).
                   loadCandidate demo_config demo_host pkg' = Inr (Some x) \<and>
                   customPluginPath demo_config = Some (m_path pkg') \<and>
                   globalInstall x = Some False \<and>
                   filter (\<lambda>y. name y = name r) result = [x])"
    by (elim exE conjE)
  note a = demo_load_custom_a [THEN conjunct1]
    and l = demo_load_custom_a [THEN conjunct2, THEN conjunct1]
    and g = demo_load_custom_a [THEN conjunct2, THEN conjunct2, THEN conjunct1]
    and n = demo_load_custom_a [THEN conjunct2, THEN conjunct2, THEN conjunct2]
  from pref [rule_format, OF a conjI [OF l g]]
  obtain x where x0: "filter (\<lambda>y. name y = name demo_record_a) result = [x]"
    and x2: "globalInstall x = Some False"
    by (elim bexE conjE)
  from x0 have x1: "filter (\<lambda>y. name y = ''homebridge-a'') result = [x]"
    unfolding n .
  show ?thesis
    by (intro conjI exI [of _ result] exI [of _ x]) (rule demo_getInstalledModules l r1 r2 x1 x2)+
qed

subsection \<open>Registry failures do not abort discovery\<close>

text \<open>
  Claim C4. When the registry request for a plugin fails (not found, or a network
  failure), \<^verbatim>\<open>getPluginFromNpm\<close> still returns the record, with
  \<open>publicPackage\<close> false, no \<open>latestVersion\<close>, \<open>updateAvailable\<close> false and
  an empty link set. Discovery returns a list whatever the registry does: every
  candidate with a named manifest carrying the keyword has a record of its name in the
  result, and every returned record whose registry request failed is degraded in that
  way.
\<close>

theorem getPluginFromNpm_registry_failure:
  "(\<forall>e. rp_get h (name plugin) = Inl e \<longrightarrow>
      getPluginFromNpm h plugin =
        plugin\<lparr>publicPackage := Some False, latestVersion := None,
               updateAvailable := Some False,
               links := Some \<lparr>npm = None, homepage = None, bugs = None\<rparr>\<rparr>) \<and>
   (getInstalledModules h st = Inr modules \<and>
    mset (sched (homebridgePlugins modules)) = mset (homebridgePlugins modules) \<longrightarrow>
      (\<exists>result. fst (getInstalledPlugins cfg h sched st) = Inr result \<and>
         (\<forall>pkg\<in>set (homebridgePlugins modules). \<forall>pjson nm.
             fs_readJson h (path_join h [m_installPath pkg, ''package.json'']) = Inr pjson \<and>
             has_plugin_keyword (j_keywords pjson) \<and> j_name pjson = Some nm \<longrightarrow>
             (\<exists>x\<in>set result. name x = nm)) \<and>
         (\<forall>x\<in>set result. \<forall>e. rp_get h (name x) = Inl e \<longrightarrow>
             publicPackage x = Some False \<and> latestVersion x = None \<and>
             updateAvailable x = Some False \<and>
             links x = Some \<lparr>npm = None, homepage = None, bugs = None\<rparr>)))"
proof (intro conjI impI allI)
  fix e assume "rp_get h (name plugin) = Inl e"
  then show "getPluginFromNpm h plugin =
        plugin\<lparr>publicPackage := Some False, latestVersion := None,
               updateAvailable := Some False,
               links := Some \<lparr>npm = None, homepage = None, bugs = None\<rparr>\<rparr>"
    by (simp add: getPluginFromNpm_failure npm_catch_def)
next
  assume a: "getInstalledModules h st = Inr modules \<and>
    mset (sched (homebridgePlugins modules)) = mset (homebridgePlugins modules)"
  let ?order = "sched (homebridgePlugins modules)"
  let ?plugins = "foldl (pluginCallback cfg h) [] ?order"
  from a have "mset ?order = mset (homebridgePlugins modules)" by simp
  then have order: "set ?order = set (homebridgePlugins modules)"
    by (rule mset_eq_setD)
  have res: "fst (getInstalledPlugins cfg h sched st) = Inr (orderBy ?plugins)"
    using a by (simp add: getInstalledPlugins_result)
  have present: "\<exists>x\<in>set (orderBy ?plugins). name x = nm"
    if "pkg \<in> set (homebridgePlugins modules)"
      and "fs_readJson h (path_join h [m_installPath pkg, ''package.json'']) = Inr pjson"
      and "has_plugin_keyword (j_keywords pjson)" and "j_name pjson = Some nm"
    for pkg pjson nm
  proof -
    from loadCandidate_total [OF that(2-4)] obtain r where
      r: "loadCandidate cfg h pkg = Inr (Some r)" "name r = nm" by blast
    from that(1) order have "pkg \<in> set ?order" by simp
    from discover_covers [OF this r(1), of "[]"] r(2)
    obtain x where "x \<in> set ?plugins" "name x = nm" by auto
    then show ?thesis unfolding orderBy_set by blast
  qed
  have degraded: "publicPackage x = Some False \<and> latestVersion x = None \<and>
             updateAvailable x = Some False \<and>
             links x = Some \<lparr>npm = None, homepage = None, bugs = None\<rparr>"
    if "x \<in> set (orderBy ?plugins)" and "rp_get h (name x) = Inl e" for x e
  proof -
    from that(1) have "x \<in> set ?plugins" by (simp add: orderBy_set)
    from discover_origin [OF this] obtain pkg where "loadCandidate cfg h pkg = Inr (Some x)"
      by auto
    from loadCandidate_Some(1) [OF this] obtain pjson where
      "parsePackageJson cfg h pjson (m_path pkg) = Inr x" by blast
    then obtain base where x: "x = getPluginFromNpm h base"
      by (auto simp: parsePackageJson_def split: option.splits)
    with that(2) have "rp_get h (name base) = Inl e"
      by (simp add: getPluginFromNpm_fields)
    then have "x = npm_catch base" unfolding x by (rule getPluginFromNpm_failure)
    then show ?thesis by (simp add: npm_catch_def)
  qed
  show "\<exists>result. fst (getInstalledPlugins cfg h sched st) = Inr result \<and>
         (\<forall>pkg\<in>set (homebridgePlugins modules). \<forall>pjson nm.
             fs_readJson h (path_join h [m_installPath pkg, ''package.json'']) = Inr pjson \<and>
             has_plugin_keyword (j_keywords pjson) \<and> j_name pjson = Some nm \<longrightarrow>
             (\<exists>x\<in>set result. name x = nm)) \<and>
         (\<forall>x\<in>set result. \<forall>e. rp_get h (name x) = Inl e \<longrightarrow>
             publicPackage x = Some False \<and> latestVersion x = None \<and>
             updateAvailable x = Some False \<and>
             links x = Some \<lparr>npm = None, homepage = None, bugs = None\<rparr>)"
  proof (intro exI [of _ "orderBy ?plugins"] conjI ballI allI impI)
    show "fst (getInstalledPlugins cfg h sched st) = Inr (orderBy ?plugins)" by (rule res)
  next
    fix pkg pjson nm
    assume "pkg \<in> set (homebridgePlugins modules)"
      and "fs_readJson h (path_join h [m_installPath pkg, ''package.json'']) = Inr pjson \<and>
             has_plugin_keyword (j_keywords pjson) \<and> j_name pjson = Some nm"
    then show "\<exists>x\<in>set (orderBy ?plugins). name x = nm"
      using present [of pkg pjson nm] by simp
  next
    fix x e assume "x \<in> set (orderBy ?plugins)" and "rp_get h (name x) = Inl e"
    from degraded [OF this]
    show "publicPackage x = Some False" "latestVersion x = None"
      "updateAvailable x = Some False"
      "links x = Some \<lparr>npm = None, homepage = None, bugs = None\<rparr>"
      by simp_all
  qed
qed

lemma demo_manifest_b:
  "demo_global_b \<in> set (homebridgePlugins demo_modules) \<and>
   fs_readJson demo_host (path_join demo_host [m_installPath demo_global_b, ''package.json'']) =
     Inr (demo_manifest ''homebridge-b'' ''1.0.0'' (Some [''homebridge-plugin''])) \<and>
   has_plugin_keyword (j_keywords (demo_manifest ''homebridge-b'' ''1.0.0'' (Some [''homebridge-plugin'']))) \<and>
   j_name (demo_manifest ''homebridge-b'' ''1.0.0'' (Some [''homebridge-plugin''])) = Some ''homebridge-b''"
  by code_simp

lemma demo_registry_b: "rp_get demo_host ''homebridge-b'' = Inl (StatusCodeError 404)"
  by code_simp

lemma demo_sample_name: "name (sample_record ''homebridge-b'' True) = ''homebridge-b''"
  by (simp add: sample_record_def)

theorem getPluginFromNpm_registry_failure_witness:
  "rp_get demo_host ''homebridge-b'' = Inl (StatusCodeError 404) \<and>
   getPluginFromNpm demo_host (sample_record ''homebridge-b'' True) =
     (sample_record ''homebridge-b'' True)
       \<lparr>publicPackage := Some False, latestVersion := None, updateAvailable := Some False,
        links := Some \<lparr>npm = None, homepage = None, bugs = None\<rparr>\<rparr> \<and>
   (\<exists>result x. fst (getInstalledPlugins demo_config demo_host rev demo_service) = Inr result \<and>
      x \<in> set result \<and> name x = ''homebridge-b'' \<and> publicPackage x = Some False \<and>
      latestVersion x = None \<and> updateAvailable x = Some False \<and>
      links x = Some \<lparr>npm = None, homepage = None, bugs = None\<rparr>)"
proof -
  note inst = getPluginFromNpm_registry_failure
    [where h = demo_host and plugin = "sample_record ''homebridge-b'' True"
       and st = demo_service and modules = demo_modules and sched = rev and cfg = demo_config]
  from demo_registry_b have fail: "rp_get demo_host (name (sample_record ''homebridge-b'' True)) =
      Inl (StatusCodeError 404)"
    unfolding demo_sample_name .
  note one = inst [THEN conjunct1, rule_format, OF fail]
  from inst [THEN conjunct2, rule_format, OF conjI [OF demo_getInstalledModules demo_fair]]
  obtain result where r1: "fst (getInstalledPlugins demo_config demo_host rev demo_service) = Inr result"
    and present: "\<forall>pkg\<in>set (homebridgePlugins demo_modules). \<forall>pjson nm.
             fs_readJson demo_host (path_join demo_host [m_installPath pkg, ''package.json'']) = Inr pjson \<and>
             has_plugin_keyword (j_keywords pjson) \<and> j_name pjson = Some nm \<longrightarrow>
             (\<exists>x\<in>set result. name x = nm)"
    and degraded: "\<forall>x\<in>set result. \<forall>e. rp_get demo_host (name x) = Inl e \<longrightarrow>
             publicPackage x = Some False \<and> latestVersion x = None \<and>
             updateAvailable x = Some False \<and>
             links x = Some \<lparr>npm = None, homepage = None, bugs = None\<rparr>"
    by (elim exE conjE)
  from present [rule_format, OF demo_manifest_b [THEN conjunct1] demo_manifest_b [THEN conjunct2]]
  obtain x where x: "x \<in> set result" "name x = ''homebridge-b''"
    by (elim bexE)
  from demo_registry_b have "rp_get demo_host (name x) = Inl (StatusCodeError 404)"
    unfolding x(2) .
  from degraded [rule_format, OF x(1) this]
  have d: "publicPackage x = Some False" "latestVersion x = None"
    "updateAvailable x = Some False"
    "links x = Some \<lparr>npm = None, homepage = None, bugs = None\<rparr>"
    by simp_all
  show ?thesis
    by (intro conjI exI [of _ result] exI [of _ x]) (rule demo_registry_b one r1 x d)+
qed

subsection \<open>Update available\<close>






lemma orderBy_key_le:
  "orderBy_key a \<le> orderBy_key b \<Longrightarrow>
     (updateAvailable a = Some False \<longrightarrow> updateAvailable b = Some False) \<and>
     (updateAvailable a = updateAvailable b \<longrightarrow> name a \<le> name b)"
  by (auto simp: orderBy_key_def updateAvailable_rank_def split: option.splits bool.splits)

lemma orderBy_sorted_wrt:
  "sorted_wrt (\<lambda>a b. (updateAvailable a = Some False \<longrightarrow> updateAvailable b = Some False) \<and>
                     (updateAvailable a = updateAvailable b \<longrightarrow> name a \<le> name b)) (orderBy ps)"
proof -
  have "sorted_wrt (\<lambda>a b. orderBy_key a \<le> orderBy_key b) (orderBy ps)"
    using orderBy_sorted [of ps] by (simp add: sorted_map)
  then show ?thesis
    by (rule sorted_wrt_mono_rel [rotated]) (rule orderBy_key_le)
qed

subsection \<open>Order of the returned list\<close>

text \<open>
  Claim C5. The list discovery returns is ordered by \<open>updateAvailable\<close> descending
  (every record with an update before every record without) and, among records with the
  same flag, by name ascending; every flag is a boolean. Records with flags true, false,
  true and names b, a, c are ordered b, c, a.
\<close>

theorem getInstalledPlugins_ordered:
  "(\<forall>modules. getInstalledModules h st = Inr modules \<longrightarrow>
      (\<exists>result. fst (getInstalledPlugins cfg h sched st) = Inr result \<and>
         sorted_wrt (\<lambda>a b. (updateAvailable a = Some False \<longrightarrow> updateAvailable b = Some False) \<and>
                            (updateAvailable a = updateAvailable b \<longrightarrow> name a \<le> name b)) result \<and>
         (\<forall>x\<in>set result. updateAvailable x = Some True \<or> updateAvailable x = Some False))) \<and>
   map name (orderBy [sample_record ''b'' True, sample_record ''a'' False, sample_record ''c'' True]) =
     [''b'', ''c'', ''a'']"
proof (intro conjI allI impI)
  fix modules assume m: "getInstalledModules h st = Inr modules"
  let ?plugins = "foldl (pluginCallback cfg h) [] (sched (homebridgePlugins modules))"
  have res: "fst (getInstalledPlugins cfg h sched st) = Inr (orderBy ?plugins)"
    by (simp add: getInstalledPlugins_result [OF m])
  have bool: "updateAvailable x = Some True \<or> updateAvailable x = Some False"
    if "x \<in> set (orderBy ?plugins)" for x
  proof -
    from that have "x \<in> set ?plugins" by (simp add: orderBy_set)
    from discover_origin [OF this] obtain pkg where "loadCandidate cfg h pkg = Inr (Some x)"
      by auto
    from loadCandidate_Some(4) [OF this] show ?thesis by auto
  qed
  show "\<exists>result. fst (getInstalledPlugins cfg h sched st) = Inr result \<and>
         sorted_wrt (\<lambda>a b. (updateAvailable a = Some False \<longrightarrow> updateAvailable b = Some False) \<and>
                            (updateAvailable a = updateAvailable b \<longrightarrow> name a \<le> name b)) result \<and>
         (\<forall>x\<in>set result. updateAvailable x = Some True \<or> updateAvailable x = Some False)"
  proof (intro exI [of _ "orderBy ?plugins"] conjI ballI)
    show "fst (getInstalledPlugins cfg h sched st) = Inr (orderBy ?plugins)" by (rule res)
    show "sorted_wrt (\<lambda>a b. (updateAvailable a = Some False \<longrightarrow> updateAvailable b = Some False) \<and>
                            (updateAvailable a = updateAvailable b \<longrightarrow> name a \<le> name b))
            (orderBy ?plugins)"
      by (rule orderBy_sorted_wrt)
  next
    fix x assume "x \<in> set (orderBy ?plugins)"
    then show "updateAvailable x = Some True \<or> updateAvailable x = Some False" by (rule bool)
  qed
next
  show "map name (orderBy [sample_record ''b'' True, sample_record ''a'' False, sample_record ''c'' True]) =
     [''b'', ''c'', ''a'']"
    by code_simp
qed

lemma demo_flags:
  "map updateAvailable (projr (fst (getInstalledPlugins demo_config demo_host rev demo_service))) =
     [Some True, Some False, Some False]"
  by code_simp

theorem getInstalledPlugins_ordered_witness:
  "getInstalledModules demo_host demo_service = Inr demo_modules \<and>
   (\<exists>result. fst (getInstalledPlugins demo_config demo_host rev demo_service) = Inr result \<and>
      map name result = [''homebridge-c'', ''homebridge-a'', ''homebridge-b''] \<and>
      map updateAvailable result = [Some True, Some False, Some False] \<and>
      sorted_wrt (\<lambda>a b. (updateAvailable a = Some False \<longrightarrow> updateAvailable b = Some False) \<and>
                         (updateAvailable a = updateAvailable b \<longrightarrow> name a \<le> name b)) result)"
proof -
  from getInstalledPlugins_ordered
    [where h = demo_host and st = demo_service and cfg = demo_config and sched = rev,
     THEN conjunct1, rule_format, OF demo_getInstalledModules]
  obtain result where r1: "fst (getInstalledPlugins demo_config demo_host rev demo_service) = Inr result"
    and r2: "sorted_wrt (\<lambda>a b. (updateAvailable a = Some False \<longrightarrow> updateAvailable b = Some False) \<and>
                         (updateAvailable a = updateAvailable b \<longrightarrow> name a \<le> name b)) result"
    by (elim exE conjE)
  from demo_names [unfolded r1]
  have names: "map name result = [''homebridge-c'', ''homebridge-a'', ''homebridge-b'']"
    by (simp only: sum.sel)
  from demo_flags [unfolded r1]
  have flags: "map updateAvailable result = [Some True, Some False, Some False]"
    by (simp only: sum.sel)
  show ?thesis
    by (intro conjI exI [of _ result]) (rule demo_getInstalledModules r1 r2 names flags)+
qed

subsection \<open>Exact-name lookup of a package without the keyword\<close>





lemma foldl_term_on_data:
  "foldl (term_on h) (pr, out) (map Data chunks) = (pr, out @ chunks)"
  by (induction chunks arbitrary: out) simp_all

subsection \<open>Command runner: exit codes\<close>

text \<open>
  Claim C6. When the terminal delivers the output chunks and then the exit event: with
  exit code 0 the promise is resolved and the client has received the preamble, every
  chunk in order and then the success message; with any other code the promise is
  rejected with the message \<open>Command failed. Please review log for details.\<close> and
  the client has received the preamble and the chunks and nothing after them.
\<close>

theorem runNpmCommand_exit_code:
  assumes "pty_spawn h (case npm_argv cfg command of [] \<Rightarrow> None | f # _ \<Rightarrow> Some f)
             (tl (npm_argv cfg command)) cwd = map Data chunks @ [Exit code]"
  shows "(code = 0 \<longrightarrow>
            runNpmCommand cfg h command cwd =
              (Resolved,
               runner_preamble cfg h command cwd @ chunks @
               [colour_text h Green (nl_cr @ ''Command succeeded!.'' @ nl_cr)])) \<and>
         (code \<noteq> 0 \<longrightarrow>
            runNpmCommand cfg h command cwd =
              (Rejected ''Command failed. Please review log for details.'',
               runner_preamble cfg h command cwd @ chunks))"
  using assms by (simp add: runNpmCommand_def foldl_term_on_data settle_def)

lemma demo_spawn_ok:
  "pty_spawn demo_host
     (case npm_argv demo_config [''npm'', '''', ''install'', ''homebridge-c@latest''] of
        [] \<Rightarrow> None | f # _ \<Rightarrow> Some f)
     (tl (npm_argv demo_config [''npm'', '''', ''install'', ''homebridge-c@latest''])) ''/custom'' =
   map Data [''added 1 package''] @ [Exit 0]"
  by code_simp

lemma demo_spawn_fail:
  "pty_spawn demo_host
     (case npm_argv demo_config [''npm'', '''', ''install'', ''homebridge-c@latest''] of
        [] \<Rightarrow> None | f # _ \<Rightarrow> Some f)
     (tl (npm_argv demo_config [''npm'', '''', ''install'', ''homebridge-c@latest''])) ''/global'' =
   map Data [''npm ERR!''] @ [Exit 1]"
  by code_simp

theorem runNpmCommand_exit_code_witness:
  "runNpmCommand demo_config demo_host [''npm'', '''', ''install'', ''homebridge-c@latest''] ''/custom'' =
     (Resolved,
      runner_preamble demo_config demo_host [''npm'', '''', ''install'', ''homebridge-c@latest''] ''/custom'' @
      [''added 1 package''] @
      [colour_text demo_host Green (nl_cr @ ''Command succeeded!.'' @ nl_cr)]) \<and>
   runNpmCommand demo_config demo_host [''npm'', '''', ''install'', ''homebridge-c@latest''] ''/global'' =
     (Rejected ''Command failed. Please review log for details.'',
      runner_preamble demo_config demo_host [''npm'', '''', ''install'', ''homebridge-c@latest''] ''/global'' @
      [''npm ERR!''])"
proof -
  have one: "(1::int) \<noteq> 0" by simp
  note ok = runNpmCommand_exit_code [OF demo_spawn_ok, THEN conjunct1, THEN mp, OF refl]
  note bad = runNpmCommand_exit_code [OF demo_spawn_fail, THEN conjunct2, THEN mp, OF one]
  show ?thesis by (intro conjI) (rule ok bad)+
qed






subsection \<open>Command runner: the write-access probe\<close>









lemma getPluginConfigSchema_result:
  assumes "getPluginConfigSchema cfg h sched st pluginName = (res, st')"
    and "installedPlugins st' = Some installed"
  shows "res = schemaOf cfg h installed pluginName"
proof (cases "installedPlugins st")
  case None
  show ?thesis
  proof (cases "getInstalledModules h st")
    case (Inl e)
    with None assms(1) have "st' = st"
      by (simp add: getPluginConfigSchema_def getInstalledPlugins_def)
    with None assms(2) show ?thesis by simp
  next
    case (Inr modules)
    from None assms show ?thesis
      by (auto simp: getPluginConfigSchema_def getInstalledPlugins_result [OF Inr])
  qed
next
  case (Some cached)
  with assms show ?thesis
    by (auto simp: getPluginConfigSchema_def)
qed

lemma set_default_result:
  assumes "set_default p v s = Inr s'"
  shows "\<exists>props pr. j_schema_properties s' = Some props \<and> map_of props p = Some pr \<and>
           prop_default pr = Some v"
  using assms
  by (auto simp: set_default_def update_conv' split: option.splits)

lemma set_default_other:
  assumes "set_default q w s = Inr s'" and "q \<noteq> p"
    and "j_schema_properties s = Some props" and "map_of props p = Some pr"
  shows "\<exists>props'. j_schema_properties s' = Some props' \<and> map_of props' p = Some pr"
  using assms
  by (auto simp: set_default_def update_conv' split: option.splits)

lemma schemaOf_port:
  assumes "schemaOf cfg h installed (cfg_name cfg) = Inr schema"
  shows "\<exists>props pr. j_schema_properties schema = Some props \<and> map_of props ''port'' = Some pr \<and>
           prop_default pr = Some (JNum (ui_port cfg))"
proof -
  from assms obtain cfile s1 where
    s1: "set_default ''port'' (JNum (ui_port cfg)) cfile = Inr s1"
    and s2: "(if cfg_name cfg = ''homebridge-alexa''
              then set_default ''pin'' (JStr (bridge_pin cfg)) s1 else Inr s1) = Inr schema"
    by (auto simp: schemaOf_def Let_def split: option.splits sum.splits if_splits)
  from set_default_result [OF s1] obtain props pr where
    p: "j_schema_properties s1 = Some props" "map_of props ''port'' = Some pr"
       "prop_default pr = Some (JNum (ui_port cfg))" by blast
  show ?thesis
  proof (cases "cfg_name cfg = ''homebridge-alexa''")
    case True
    with s2 have "set_default ''pin'' (JStr (bridge_pin cfg)) s1 = Inr schema" by simp
    from set_default_other [OF this _ p(1,2)] p(3) show ?thesis by auto
  next
    case False
    with s2 have "schema = s1" by simp
    with p show ?thesis by blast
  qed
qed

subsection \<open>Config schema retrieval\<close>

text \<open>
  Claim C7. Once the installed plugins are known: \<^verbatim>\<open>getPluginConfigSchema\<close>
  fails with \<open>NotFoundException\<close> for a plugin that is not in the list, and for an
  installed plugin with no schema file at its place; whenever it returns a schema for the
  package of the console itself, the default of the \<open>port\<close> property of that schema
  is the configured port; and it does return one (the file with that default replaced)
  when the schema file has a \<open>port\<close> property.
\<close>

theorem getPluginConfigSchema_outcomes:
  assumes "getPluginConfigSchema cfg h sched st pluginName = (res, st')"
    and "installedPlugins st' = Some installed"
  shows "(find (\<lambda>x. name x = pluginName) installed = None \<longrightarrow> res = Inl NotFoundException) \<and>
         (\<forall>plugin ipath.
            find (\<lambda>x. name x = pluginName) installed = Some plugin \<and>
            installPath plugin = Some ipath \<and>
            \<not> fs_pathExists h (path_resolve h [ipath, pluginName, ''config.schema.json'']) \<longrightarrow>
            res = Inl NotFoundException) \<and>
         (\<forall>schema. pluginName = cfg_name cfg \<and> res = Inr schema \<longrightarrow>
            (\<exists>props pr. j_schema_properties schema = Some props \<and>
               map_of props ''port'' = Some pr \<and>
               prop_default pr = Some (JNum (ui_port cfg)))) \<and>
         (\<forall>plugin ipath cfile props pr.
            find (\<lambda>x. name x = pluginName) installed = Some plugin \<and>
            installPath plugin = Some ipath \<and>
            fs h (path_resolve h [ipath, pluginName, ''config.schema.json'']) = Some (JsonFile cfile) \<and>
            j_schema_properties cfile = Some props \<and> map_of props ''port'' = Some pr \<and>
            pluginName = cfg_name cfg \<and> pluginName \<noteq> ''homebridge-alexa'' \<longrightarrow>
            res = Inr (cfile\<lparr>j_schema_properties :=
                        Some (AList.update ''port'' (pr\<lparr>prop_default := Some (JNum (ui_port cfg))\<rparr>)
                                props)\<rparr>))"
proof -
  note res = getPluginConfigSchema_result [OF assms]
  show ?thesis
  proof (intro conjI allI impI)
    assume "find (\<lambda>x. name x = pluginName) installed = None"
    then show "res = Inl NotFoundException"
      by (simp add: res schemaOf_def)
  next
    fix plugin ipath
    assume "find (\<lambda>x. name x = pluginName) installed = Some plugin \<and>
            installPath plugin = Some ipath \<and>
            \<not> fs_pathExists h (path_resolve h [ipath, pluginName, ''config.schema.json''])"
    then show "res = Inl NotFoundException"
      by (simp add: res schemaOf_def)
  next
    fix schema
    assume "pluginName = cfg_name cfg \<and> res = Inr schema"
    with res have "schemaOf cfg h installed (cfg_name cfg) = Inr schema" by simp
    then show "\<exists>props pr. j_schema_properties schema = Some props \<and>
               map_of props ''port'' = Some pr \<and>
               prop_default pr = Some (JNum (ui_port cfg))"
      by (rule schemaOf_port)
  next
    fix plugin ipath cfile props pr
    assume a: "find (\<lambda>x. name x = pluginName) installed = Some plugin \<and>
            installPath plugin = Some ipath \<and>
            fs h (path_resolve h [ipath, pluginName, ''config.schema.json'']) = Some (JsonFile cfile) \<and>
            j_schema_properties cfile = Some props \<and> map_of props ''port'' = Some pr \<and>
            pluginName = cfg_name cfg \<and> pluginName \<noteq> ''homebridge-alexa''"
    then have f: "find (\<lambda>x. name x = pluginName) installed = Some plugin"
      "installPath plugin = Some ipath"
      "fs h (path_resolve h [ipath, pluginName, ''config.schema.json'']) = Some (JsonFile cfile)"
      "j_schema_properties cfile = Some props" "map_of props ''port'' = Some pr"
      "cfg_name cfg = pluginName" "pluginName \<noteq> ''homebridge-alexa''"
      by auto
    show "res = Inr (cfile\<lparr>j_schema_properties :=
                        Some (AList.update ''port'' (pr\<lparr>prop_default := Some (JNum (ui_port cfg))\<rparr>)
                                props)\<rparr>)"
      unfolding res schemaOf_def using f
      by (simp add: Let_def fs_pathExists_def fs_readJson_def set_default_def)
  qed
qed

lemma demo_schema_own:
  "getPluginConfigSchema demo_config demo_host rev demo_cached ''homebridge-config-ui-x'' =
     (Inr (demo_schema\<lparr>j_schema_properties :=
             Some [(''port'', \<lparr>prop_default = Some (JNum 8581)\<rparr>),
                   (''theme'', \<lparr>prop_default = Some (JStr ''red'')\<rparr>)]\<rparr>), demo_cached)"
  by code_simp

lemma demo_schema_missing:
  "getPluginConfigSchema demo_config demo_host rev demo_cached ''homebridge-a'' =
     (Inl NotFoundException, demo_cached)"
  "getPluginConfigSchema demo_config demo_host rev demo_cached ''homebridge-zzz'' =
     (Inl NotFoundException, demo_cached)"
  by code_simp+

lemma demo_schema_own_out:
  "getPluginConfigSchema demo_config demo_host rev demo_cached ''homebridge-config-ui-x'' =
     (Inr demo_schema_out, demo_cached)"
  by code_simp

lemma demo_cached_plugins:
  "installedPlugins demo_cached =
     Some [demo_record_a,
           (sample_record ''homebridge-config-ui-x'' False)\<lparr>installPath := Some ''/global''\<rparr>]"
  by (simp add: demo_cached_def)

lemma demo_own_name: "''homebridge-config-ui-x'' = cfg_name demo_config"
  by (simp add: demo_config_def)

lemma demo_port: "ui_port demo_config = 8581"
  by (simp add: demo_config_def)

theorem getPluginConfigSchema_outcomes_witness:
  "getPluginConfigSchema demo_config demo_host rev demo_cached ''homebridge-config-ui-x'' =
     (Inr demo_schema_out, demo_cached) \<and>
   ui_port demo_config = 8581 \<and>
   (\<exists>props pr. j_schema_properties demo_schema_out = Some props \<and>
      map_of props ''port'' = Some pr \<and> prop_default pr = Some (JNum (ui_port demo_config))) \<and>
   getPluginConfigSchema demo_config demo_host rev demo_cached ''homebridge-a'' =
     (Inl NotFoundException, demo_cached) \<and>
   getPluginConfigSchema demo_config demo_host rev demo_cached ''homebridge-zzz'' =
     (Inl NotFoundException, demo_cached)"
proof -
  note port = getPluginConfigSchema_outcomes
    [OF demo_schema_own_out demo_cached_plugins, THEN conjunct2, THEN conjunct2, THEN conjunct1,
     rule_format, OF conjI [OF demo_own_name refl]]
  show ?thesis
    by (intro conjI) (rule demo_schema_own_out demo_port port demo_schema_missing)+
qed

lemma uniq_step_set:
  "set (foldl (\<lambda>res v. if v \<in> set res then res else res @ [v]) acc xs) = set acc \<union> set xs"
  by (induction xs arbitrary: acc) auto

lemma uniq_step_distinct:
  "distinct acc \<Longrightarrow> distinct (foldl (\<lambda>res v. if v \<in> set res then res else res @ [v]) acc xs)"
  by (induction xs arbitrary: acc) auto

lemma uniq_step_prefix:
  "\<exists>ys. foldl (\<lambda>res v. if v \<in> set res then res else res @ [v]) acc xs = acc @ ys"
proof (induction xs arbitrary: acc)
  case Nil
  then show ?case by simp
next
  case (Cons x xs)
  show ?case
  proof (cases "x \<in> set acc")
    case True
    with Cons.IH [of acc] show ?thesis by simp
  next
    case False
    from Cons.IH [of "acc @ [x]"] obtain ys where
      "foldl (\<lambda>res v. if v \<in> set res then res else res @ [v]) (acc @ [x]) xs = (acc @ [x]) @ ys"
      by blast
    with False show ?thesis by simp
  qed
qed

lemma uniq_set: "set (uniq xs) = set xs"
  by (simp add: uniq_def uniq_step_set)

lemma uniq_distinct: "distinct (uniq xs)"
  by (simp add: uniq_def uniq_step_distinct)

lemma uniq_split:
  "\<exists>pre post. uniq (np @ c # rest) = pre @ c # post \<and> c \<notin> set pre \<and> set pre \<subseteq> set np"
proof -
  let ?step = "\<lambda>res v. if v \<in> set res then res else res @ [v]"
  define r1 where "r1 = foldl ?step [] np"
  have r1: "set r1 = set np" by (simp add: r1_def uniq_step_set)
  have u: "uniq (np @ c # rest) = foldl ?step r1 (c # rest)"
    by (simp add: uniq_def r1_def)
  show ?thesis
  proof (cases "c \<in> set r1")
    case True
    then obtain a b where ab: "r1 = a @ c # b" "c \<notin> set a"
      by (auto dest: split_list_first)
    from uniq_step_prefix [of r1 "c # rest"] obtain ys where
      "foldl ?step r1 (c # rest) = r1 @ ys" by blast
    with u ab have "uniq (np @ c # rest) = a @ c # (b @ ys)" by simp
    moreover from ab r1 have "set a \<subseteq> set np" by auto
    ultimately show ?thesis using ab(2) by blast
  next
    case False
    from uniq_step_prefix [of "r1 @ [c]" rest] obtain ys where
      "foldl ?step (r1 @ [c]) rest = (r1 @ [c]) @ ys" by blast
    with u False have "uniq (np @ c # rest) = r1 @ c # ys" by simp
    with False r1 show ?thesis by blast
  qed
qed

lemma getBasePaths_shape:
  assumes "customPluginPath cfg = Some c" and "c \<noteq> []"
  shows "\<exists>np rest. getBasePaths cfg h = filter (fs_existsSync h) (uniq (np @ c # rest)) \<and>
           (truthy (env_NODE_PATH h) \<longrightarrow> np = nodePathEntries h) \<and>
           (\<not> truthy (env_NODE_PATH h) \<longrightarrow> np = [])"
proof (cases "truthy (env_NODE_PATH h)")
  case True
  from assms have t: "truthy (Some c)" by (simp add: truthy_def)
  with True assms have "getBasePaths cfg h =
      filter (fs_existsSync h) (uniq (nodePathEntries h @ c # require_main_paths h))"
    by (simp add: getBasePaths_def)
  with True show ?thesis by blast
next
  case False
  from assms have t: "truthy (Some c)" by (simp add: truthy_def)
  with False assms have "getBasePaths cfg h =
      filter (fs_existsSync h)
        (uniq ([] @ c # (require_main_paths h @
           (if os_platform h = ''win32''
            then [path_join h [env_APPDATA h, ''npm/node_modules'']]
            else [''/usr/local/lib/node_modules'', ''/usr/lib/node_modules'',
                  npm_global_modules h]))))"
    by (simp add: getBasePaths_def Let_def)
  with False show ?thesis by blast
qed

subsection \<open>Base paths\<close>

text \<open>
  Claim C9, as amended. The list \<^verbatim>\<open>getBasePaths\<close> returns has no duplicates and
  only paths that exist on disk, be it as a directory or as a file
  (\<^verbatim>\<open>fs.existsSync\<close> holds of each). When a custom plugin directory is configured
  and exists on disk, it is in the list, and every entry before it is an entry of
  \<^verbatim>\<open>NODE_PATH\<close>: it is the first element when \<^verbatim>\<open>NODE_PATH\<close> is not set.
\<close>

theorem getBasePaths_custom_position:
  "distinct (getBasePaths cfg h) \<and>
   (\<forall>p\<in>set (getBasePaths cfg h). fs_existsSync h p) \<and>
   (\<forall>c. customPluginPath cfg = Some c \<and> c \<noteq> [] \<and> fs_existsSync h c \<longrightarrow>
      (\<exists>pre post. getBasePaths cfg h = pre @ c # post \<and> c \<notin> set pre \<and>
         (truthy (env_NODE_PATH h) \<longrightarrow> set pre \<subseteq> set (nodePathEntries h)) \<and>
         (\<not> truthy (env_NODE_PATH h) \<longrightarrow> pre = [])))"
proof (intro conjI allI impI ballI)
  show "distinct (getBasePaths cfg h)"
    by (simp add: getBasePaths_def Let_def uniq_distinct)
next
  fix p assume "p \<in> set (getBasePaths cfg h)"
  then show "fs_existsSync h p"
    by (simp add: getBasePaths_def Let_def)
next
  fix c assume a: "customPluginPath cfg = Some c \<and> c \<noteq> [] \<and> fs_existsSync h c"
  then have c: "customPluginPath cfg = Some c" "c \<noteq> []" "fs_existsSync h c" by simp_all
  from getBasePaths_shape [OF c(1,2), of h] obtain np rest where
    g: "getBasePaths cfg h = filter (fs_existsSync h) (uniq (np @ c # rest))"
    and np: "truthy (env_NODE_PATH h) \<longrightarrow> np = nodePathEntries h"
      "\<not> truthy (env_NODE_PATH h) \<longrightarrow> np = []"
    by blast
  from uniq_split [of np c rest] obtain pre post where
    s: "uniq (np @ c # rest) = pre @ c # post" "c \<notin> set pre" "set pre \<subseteq> set np"
    by blast
  let ?pre = "filter (fs_existsSync h) pre" and ?post = "filter (fs_existsSync h) post"
  from g s(1) c(3) have "getBasePaths cfg h = ?pre @ c # ?post" by simp
  moreover from s(2) have "c \<notin> set ?pre" by simp
  moreover from s(3) np(1) have "truthy (env_NODE_PATH h) \<longrightarrow> set ?pre \<subseteq> set (nodePathEntries h)"
    by auto
  moreover from s(3) np(2) have "\<not> truthy (env_NODE_PATH h) \<longrightarrow> ?pre = []"
    by auto
  ultimately show "\<exists>pre post. getBasePaths cfg h = pre @ c # post \<and> c \<notin> set pre \<and>
         (truthy (env_NODE_PATH h) \<longrightarrow> set pre \<subseteq> set (nodePathEntries h)) \<and>
         (\<not> truthy (env_NODE_PATH h) \<longrightarrow> pre = [])"
    by blast
qed

lemma demo_custom_exists:
  "customPluginPath demo_config = Some ''/custom'' \<and> ''/custom'' \<noteq> [] \<and>
   fs_existsSync demo_host ''/custom''"
  by code_simp

lemma demo_no_node_path: "\<not> truthy (env_NODE_PATH demo_host)"
  by code_simp

lemma demo_base_paths: "getBasePaths demo_config demo_host = [''/custom'', ''/global'']"
  by code_simp

theorem getBasePaths_custom_position_witness:
  "customPluginPath demo_config = Some ''/custom'' \<and> fs_existsSync demo_host ''/custom'' \<and>
   getBasePaths demo_config demo_host = [''/custom'', ''/global''] \<and>
   (\<exists>post. getBasePaths demo_config demo_host = ''/custom'' # post)"
proof -
  from getBasePaths_custom_position [of demo_config demo_host, THEN conjunct2, THEN conjunct2,
    rule_format, OF demo_custom_exists]
  obtain pre post where p: "getBasePaths demo_config demo_host = pre @ ''/custom'' # post"
    and e: "\<not> truthy (env_NODE_PATH demo_host) \<longrightarrow> pre = []"
    by (elim exE conjE)
  from e demo_no_node_path have "pre = []" by (rule mp)
  with p have "getBasePaths demo_config demo_host = ''/custom'' # post" by simp
  then have "\<exists>post. getBasePaths demo_config demo_host = ''/custom'' # post" by (rule exI)
  with demo_custom_exists demo_base_paths show ?thesis by simp
qed

text \<open>
  The claim as first stated has the custom directory first in every configuration and
  only directories in the list. With \<^verbatim>\<open>NODE_PATH\<close> set, its entries come first; a
  custom directory that does not exist on disk is not in the list at all; and an entry of
  \<^verbatim>\<open>NODE_PATH\<close> that names a regular file is in the list, since
  \<^verbatim>\<open>fs.existsSync\<close> holds of files too.
\<close>

theorem getBasePaths_custom_first_counterexample:
  "customPluginPath demo_config = Some ''/custom'' \<and>
   fs_existsSync demo_nodepath ''/custom'' \<and>
   getBasePaths demo_config demo_nodepath = [''/global'', ''/custom''] \<and>
   hd (getBasePaths demo_config demo_nodepath) \<noteq> ''/custom'' \<and>
   customPluginPath (demo_config\<lparr>customPluginPath := Some ''/missing''\<rparr>) = Some ''/missing'' \<and>
   getBasePaths (demo_config\<lparr>customPluginPath := Some ''/missing''\<rparr>) demo_host = [''/global''] \<and>
   getBasePaths demo_config demo_nodepath_file =
     [''/global/lodash/package.json'', ''/custom'', ''/global''] \<and>
   \<not> is_directory demo_nodepath_file ''/global/lodash/package.json''"
  by code_simp

end
